theory Spec2Isabelle
  imports
    Main
    "HOL-Library.FSet"
    "HOL-Library.Multiset"
    "HOL-Library.List_Lexorder"
    "HOL-Library.Char_ord"
    "HOL-Library.Sublist"
begin

section \<open>JSON values and the Python operations on them\<close>

text \<open>
  A parsed JSON document is any JSON value; nothing is assumed about its shape. An object
  is the list of the items of the dictionary that \<open>json.load\<close> builds, in its order, with
  distinct keys. A number is an integer or a finite float, the float given by its exact
  value. The non-standard literals \<open>NaN\<close> and \<open>Infinity\<close> are not values of the type.
\<close>

datatype json =
    JNull
  | JBool bool
  | JInt int
  | JFloat rat
  | JStr string
  | JArr "json list"
  | JObj "(string \<times> json) list"

text \<open>
  An exception that leaves a function is an \<open>Inl\<close> result. \<open>JSONDecodeError\<close> stands for
  any failure to open, decode or parse a file, \<open>OSError\<close> for any of its subclasses
  raised by a file system operation, and \<open>BadZipFile\<close> for any failure to open or read
  an archive or a member of it. \<open>NotModelled\<close> is no exception: it marks an input that
  the model of the file system does not cover.
\<close>

datatype error =
    ValueError
  | JSONDecodeError
  | AttributeError
  | TypeError
  | KeyError
  | OSError
  | BadZipFile
  | NotModelled

definition is_obj :: "json \<Rightarrow> bool" where
  "is_obj v = (case v of JObj kvs \<Rightarrow> True | _ \<Rightarrow> False)"

definition is_str :: "json \<Rightarrow> bool" where
  "is_str v = (case v of JStr s \<Rightarrow> True | _ \<Rightarrow> False)"

text \<open>The value of a number; \<open>True\<close> and \<open>False\<close> are the numbers 1 and 0.\<close>

definition num_val :: "json \<Rightarrow> rat option" where
  "num_val v =
     (case v of
        JBool b \<Rightarrow> Some (if b then 1 else 0)
      | JInt n \<Rightarrow> Some (of_int n)
      | JFloat q \<Rightarrow> Some q
      | _ \<Rightarrow> None)"

definition is_num :: "json \<Rightarrow> bool" where
  "is_num v = (num_val v \<noteq> None)"

text \<open>The truth value of a value in a condition.\<close>

definition truthy :: "json \<Rightarrow> bool" where
  "truthy v =
     (case v of
        JNull \<Rightarrow> False
      | JBool b \<Rightarrow> b
      | JInt n \<Rightarrow> n \<noteq> 0
      | JFloat q \<Rightarrow> q \<noteq> 0
      | JStr s \<Rightarrow> s \<noteq> []
      | JArr xs \<Rightarrow> xs \<noteq> []
      | JObj kvs \<Rightarrow> kvs \<noteq> [])"

text \<open>Lists and dictionaries cannot be hashed: they can be neither set elements nor keys.\<close>

definition hashable :: "json \<Rightarrow> bool" where
  "hashable v = (case v of JArr xs \<Rightarrow> False | JObj kvs \<Rightarrow> False | _ \<Rightarrow> True)"

text \<open>Equality of two hashable values: numbers by their value, the others when identical.\<close>

definition scalar_eq :: "json \<Rightarrow> json \<Rightarrow> bool" where
  "scalar_eq a b =
     (case (num_val a, num_val b) of
        (Some x, Some y) \<Rightarrow> x = y
      | (None, None) \<Rightarrow> a = b
      | _ \<Rightarrow> False)"

text \<open>\<open>s.add(v)\<close> on a set of hashable values, kept as the list of its elements.\<close>

definition set_add :: "json \<Rightarrow> json list \<Rightarrow> json list" where
  "set_add v s = (if list_ex (scalar_eq v) s then s else s @ [v])"

text \<open>\<open>d.get(k, default)\<close>: only a dictionary has the method.\<close>

definition py_get :: "json \<Rightarrow> string \<Rightarrow> json \<Rightarrow> error + json" where
  "py_get d k dflt =
     (case d of
        JObj kvs \<Rightarrow> Inr (case map_of kvs k of Some v \<Rightarrow> v | None \<Rightarrow> dflt)
      | _ \<Rightarrow> Inl AttributeError)"

text \<open>\<open>x[k]\<close> for a string \<open>k\<close>: lists and strings take integer indices only.\<close>

definition py_getitem :: "json \<Rightarrow> string \<Rightarrow> error + json" where
  "py_getitem x k =
     (case x of
        JObj kvs \<Rightarrow> (case map_of kvs k of Some v \<Rightarrow> Inr v | None \<Rightarrow> Inl KeyError)
      | _ \<Rightarrow> Inl TypeError)"

text \<open>
  Iteration: the elements of a list, the characters of a string, the keys of a
  dictionary; every other value is not iterable.
\<close>

definition py_iter :: "json \<Rightarrow> error + json list" where
  "py_iter v =
     (case v of
        JArr xs \<Rightarrow> Inr xs
      | JStr s \<Rightarrow> Inr (map (\<lambda>c. JStr [c]) s)
      | JObj kvs \<Rightarrow> Inr (map (\<lambda>kv. JStr (fst kv)) kvs)
      | _ \<Rightarrow> Inl TypeError)"

definition py_len :: "json \<Rightarrow> error + nat" where
  "py_len v =
     (case v of
        JArr xs \<Rightarrow> Inr (length xs)
      | JStr s \<Rightarrow> Inr (length s)
      | JObj kvs \<Rightarrow> Inr (length kvs)
      | _ \<Rightarrow> Inl TypeError)"

text \<open>\<open>d[k] = v\<close> on the items of a dictionary: a new key goes last.\<close>

definition dict_set :: "'k \<Rightarrow> 'v \<Rightarrow> ('k \<times> 'v) list \<Rightarrow> ('k \<times> 'v) list" where
  "dict_set k v d =
     (if k \<in> fst ` set d then map (\<lambda>kv. if fst kv = k then (k, v) else kv) d
      else d @ [(k, v)])"

section \<open>Strings and the two regular expressions\<close>

definition is_digit :: "char \<Rightarrow> bool" where
  "is_digit c = (c \<in> set ''0123456789'')"

definition is_space :: "char \<Rightarrow> bool" where
  "is_space c = (c \<in> {CHR '' '', CHR 0x09, CHR 0x0A, CHR 0x0B, CHR 0x0C, CHR 0x0D,
                        CHR 0x1C, CHR 0x1D, CHR 0x1E, CHR 0x1F, CHR 0x85, CHR 0xA0})"

definition strip :: "string \<Rightarrow> string" where
  "strip s = rev (dropWhile is_space (rev (dropWhile is_space s)))"

definition startswith :: "string \<Rightarrow> string \<Rightarrow> bool" where
  "startswith s p = (take (length p) s = p)"

definition endswith :: "string \<Rightarrow> string \<Rightarrow> bool" where
  "endswith s p = (length p \<le> length s \<and> drop (length s - length p) s = p)"

text \<open>\<open>contains s p\<close> is Python's \<open>p in s\<close> on strings.\<close>

fun contains :: "string \<Rightarrow> string \<Rightarrow> bool" where
  "contains [] p = (p = [])"
| "contains (c # cs) p = (startswith (c # cs) p \<or> contains cs p)"

text \<open>
  A matcher maps a text to the remainders left by every way of matching a prefix of it,
  in the order in which a backtracking engine tries them (greedy: longest first; lazy:
  shortest first). A pattern matches at a position iff the list is not empty, and the
  head of the list is the match the engine reports.
\<close>

type_synonym matcher = "string \<Rightarrow> string list"

definition m_digits :: "nat \<Rightarrow> nat \<Rightarrow> matcher" where
  "m_digits lo hi s =
     map (\<lambda>k. drop k s)
       (filter (\<lambda>k. k \<le> length s \<and> list_all is_digit (take k s)) (rev [lo..<Suc hi]))"

definition m_lit :: "char \<Rightarrow> matcher" where
  "m_lit c s = (case s of [] \<Rightarrow> [] | x # xs \<Rightarrow> if x = c then [xs] else [])"

definition m_space :: matcher where
  "m_space s = (case s of [] \<Rightarrow> [] | x # xs \<Rightarrow> if is_space x then [xs] else [])"

text \<open>The dot matches every character but the newline.\<close>

definition dot_run :: "string \<Rightarrow> nat" where
  "dot_run s = length (takeWhile (\<lambda>c. c \<noteq> CHR 0x0A) s)"

definition m_any_greedy :: matcher where
  "m_any_greedy s = map (\<lambda>k. drop k s) (rev [0..<Suc (dot_run s)])"

definition m_seq :: "matcher \<Rightarrow> matcher \<Rightarrow> matcher" where
  "m_seq p q s = concat (map q (p s))"

text \<open>\<^verbatim>\<open>\d{1,2}/\d{1,2}/\d{2,4},\s\d{1,2}:\d{2}\<close>\<close>

definition wa_header :: matcher where
  "wa_header =
     m_seq (m_digits 1 2) (m_seq (m_lit CHR ''/'') (m_seq (m_digits 1 2) (m_seq (m_lit CHR ''/'')
     (m_seq (m_digits 2 4) (m_seq (m_lit CHR '','') (m_seq m_space (m_seq (m_digits 1 2)
     (m_seq (m_lit CHR '':'') (m_digits 2 2)))))))))"

text \<open>\<^verbatim>\<open>\d{1,2}/\d{1,2}/\d{2,4},\s\d{1,2}:\d{2}.*-\s\<close>\<close>

definition wa_pattern :: matcher where
  "wa_pattern = m_seq wa_header (m_seq m_any_greedy (m_seq (m_lit CHR ''-'') m_space))"

definition re_search :: "matcher \<Rightarrow> string \<Rightarrow> bool" where
  "re_search p s = list_ex (\<lambda>k. p (drop k s) \<noteq> []) [0..<Suc (length s)]"

text \<open>The lazy group \<^verbatim>\<open>(.*?)\<close>: the captured text and the remainder, shortest first.\<close>

definition m_lazy_group :: "string \<Rightarrow> (string \<times> string) list" where
  "m_lazy_group s = map (\<lambda>k. (take k s, drop k s)) [0..<Suc (dot_run s)]"

text \<open>The greedy group \<^verbatim>\<open>(.*)\<close>, longest first.\<close>

definition m_greedy_group :: "string \<Rightarrow> (string \<times> string) list" where
  "m_greedy_group s = map (\<lambda>k. (take k s, drop k s)) (rev [0..<Suc (dot_run s)])"

text \<open>
  \<^verbatim>\<open>\d{1,2}/\d{1,2}/\d{2,4},\s\d{1,2}:\d{2}.*-\s(.*?):\<close> of \<open>extract_participants\<close>:
  the values of group 1, in the engine's order.
\<close>

definition msg_pattern :: "string \<Rightarrow> string list" where
  "msg_pattern s =
     concat (map (\<lambda>r. concat (map (\<lambda>(g, r'). map (\<lambda>_. g) (m_lit CHR '':'' r'))
                                  (m_lazy_group r)))
                 (wa_pattern s))"

text \<open>
  \<^verbatim>\<open>^\d{1,2}/\d{1,2}/\d{2,4},\s\d{1,2}:\d{2}.*-\s(.*?):\s(.*)$\<close> of
  \<open>extract_message_fingerprints\<close>: groups 1 and 2. The dollar matches at the end of the
  line or before its final newline.
\<close>

definition fp_msg_pattern :: "string \<Rightarrow> (string \<times> string) list" where
  "fp_msg_pattern s =
     concat (map (\<lambda>r.
       concat (map (\<lambda>(g1, r1).
         concat (map (\<lambda>r2.
           concat (map (\<lambda>r3.
             concat (map (\<lambda>(g2, r4). if r4 = [] \<or> r4 = [CHR 0x0A] then [(g1, g2)] else [])
                         (m_greedy_group r3)))
             (m_space r2)))
           (m_lit CHR '':'' r1)))
         (m_lazy_group r)))
       (wa_pattern s))"

text \<open>\<open>re.search\<close> returning a group: the leftmost position with a match, and its first match.\<close>

definition search_group :: "(string \<Rightarrow> 'a list) \<Rightarrow> string \<Rightarrow> 'a option" where
  "search_group p s =
     (case filter (\<lambda>k. p (drop k s) \<noteq> []) [0..<Suc (length s)] of
        [] \<Rightarrow> None
      | k # _ \<Rightarrow> Some (hd (p (drop k s))))"

text \<open>\<open>re.match\<close>: a match at position 0 only.\<close>

definition match_group :: "(string \<Rightarrow> 'a list) \<Rightarrow> string \<Rightarrow> 'a option" where
  "match_group p s = (case p s of [] \<Rightarrow> None | g # _ \<Rightarrow> Some g)"

fun readlines :: "string \<Rightarrow> string list" where
  "readlines [] = []"
| "readlines (c # cs) =
     (if c = CHR 0x0A then [c] # readlines cs
      else (case readlines cs of [] \<Rightarrow> [[c]] | l # ls \<Rightarrow> (c # l) # ls))"

text \<open>Python's slices \<open>xs[:n]\<close> and \<open>xs[i:]\<close> for any integer.\<close>

definition slice_to :: "int \<Rightarrow> 'a list \<Rightarrow> 'a list" where
  "slice_to n xs = (if 0 \<le> n then take (nat n) xs else take (length xs - nat (- n)) xs)"

definition slice_from :: "int \<Rightarrow> 'a list \<Rightarrow> 'a list" where
  "slice_from i xs = (if 0 \<le> i then drop (nat i) xs else drop (length xs - nat (- i)) xs)"

text \<open>\<open>s.split(sep)\<close> for a separator of one character, and \<open>sep.join(xs)\<close>.\<close>

fun split_on :: "char \<Rightarrow> string \<Rightarrow> string list" where
  "split_on sep [] = [[]]"
| "split_on sep (c # cs) =
     (if c = sep then [] # split_on sep cs
      else (case split_on sep cs of [] \<Rightarrow> [[c]] | p # ps \<Rightarrow> (c # p) # ps))"

fun join :: "string \<Rightarrow> string list \<Rightarrow> string" where
  "join sep [] = []"
| "join sep [x] = x"
| "join sep (x # y # ys) = x @ sep @ join sep (y # ys)"

text \<open>The decimal numeral of a number.\<close>

fun string_of_nat :: "nat \<Rightarrow> string" where
  "string_of_nat n =
     (if n < 10 then [char_of (48 + n)]
      else string_of_nat (n div 10) @ [char_of (48 + n mod 10)])"

declare string_of_nat.simps [simp del]

definition string_of_int :: "int \<Rightarrow> string" where
  "string_of_int n =
     (if n < 0 then CHR ''-'' # string_of_nat (nat (- n)) else string_of_nat (nat n))"

text \<open>
  \<open>str(v)\<close>, also what an f-string prints: a string is itself. The text of a float, a list
  or a dictionary is left to the parameter \<open>repr\<close>.
\<close>

definition py_str :: "(json \<Rightarrow> string) \<Rightarrow> json \<Rightarrow> string" where
  "py_str repr v =
     (case v of
        JStr s \<Rightarrow> s
      | JNull \<Rightarrow> ''None''
      | JBool b \<Rightarrow> (if b then ''True'' else ''False'')
      | JInt n \<Rightarrow> string_of_int n
      | _ \<Rightarrow> repr v)"

text \<open>
  \<open>k in x\<close> for a string \<open>k\<close>: a key of a dictionary, an element of a list, a substring
  of a string; every other value raises.
\<close>

definition py_contains :: "string \<Rightarrow> json \<Rightarrow> error + bool" where
  "py_contains k x =
     (case x of
        JObj kvs \<Rightarrow> Inr (k \<in> fst ` set kvs)
      | JArr xs \<Rightarrow> Inr (JStr k \<in> set xs)
      | JStr s \<Rightarrow> Inr (contains s k)
      | _ \<Rightarrow> Inl TypeError)"

text \<open>
  \<open>sorted(xs)\<close> for the elements of a set of hashable values. Up to one element is never
  compared. Strings are ordered by their characters and numbers by their value, and a
  comparison between a string, a number and \<open>None\<close> raises; a sort of two or more
  elements of more than one of these kinds must make such a comparison.
\<close>

definition str_of :: "json \<Rightarrow> string" where
  "str_of v = (case v of JStr s \<Rightarrow> s | _ \<Rightarrow> [])"

definition py_sorted :: "json list \<Rightarrow> error + json list" where
  "py_sorted xs =
     (if length xs \<le> 1 then Inr xs
      else if list_all is_str xs then Inr (sort_key str_of xs)
      else if list_all is_num xs then Inr (sort_key (\<lambda>v. the (num_val v)) xs)
      else Inl TypeError)"

section \<open>Format classifier and participant extraction (processor.py)\<close>

text \<open>
  A file on disk, as the text-mode readers see it: it cannot be opened (\<open>Absent\<close>); it
  opens, but already \<open>read(4096)\<close> raises a decoding error (\<open>Unreadable\<close>); \<open>read(4096)\<close>
  returns a text, but reading the whole file raises (\<open>Prefix_only\<close>); or the whole file
  decodes (\<open>Content\<close>), and then it has its text and the result of \<open>json.load\<close> on it,
  \<open>None\<close> when the parser raises.
\<close>

datatype disk_file =
    Absent
  | Unreadable
  | Prefix_only string
  | Content string "json option"

text \<open>The decision of \<open>classify_file\<close> on the text that \<open>read(4096)\<close> returned.\<close>

definition classify_text :: "string \<Rightarrow> string" where
  "classify_text content =
     (let content_stripped = strip content
      in if (startswith content_stripped ''{'' \<or> startswith content_stripped ''['')
            \<and> contains content ''\"participants\":'' \<and> contains content ''\"messages\":''
         then ''Instagram''
         else if re_search wa_pattern content then ''WhatsApp''
         else ''NULL'')"

definition classify_file :: "disk_file \<Rightarrow> string" where
  "classify_file file =
     (case file of
        Absent \<Rightarrow> ''NULL''
      | Unreadable \<Rightarrow> ''NULL''
      | Prefix_only text \<Rightarrow> classify_text (take 4096 text)
      | Content text parsed \<Rightarrow> classify_text (take 4096 text))"

text \<open>
  The loop of \<open>extract_participants\<close> over the participants: the first exception ends it,
  and the names added so far stay in the set.
\<close>

fun add_names :: "json list \<Rightarrow> json list \<Rightarrow> json list" where
  "add_names [] participants = participants"
| "add_names (p # ps) participants =
     (case py_contains ''name'' p of
        Inl e \<Rightarrow> participants
      | Inr False \<Rightarrow> add_names ps participants
      | Inr True \<Rightarrow>
          (case py_getitem p ''name'' of
             Inl e \<Rightarrow> participants
           | Inr v \<Rightarrow>
               if hashable v then add_names ps (set_add v participants) else participants))"

text \<open>The set that the Instagram branch builds from a parsed document.\<close>

definition instagram_participants :: "json \<Rightarrow> json list" where
  "instagram_participants data =
     (case py_contains ''participants'' data of
        Inr True \<Rightarrow>
          (case py_getitem data ''participants'' of
             Inr v \<Rightarrow> (case py_iter v of Inr ps \<Rightarrow> add_names ps [] | Inl e \<Rightarrow> [])
           | Inl e \<Rightarrow> [])
      | _ \<Rightarrow> [])"

text \<open>The set that the WhatsApp branch builds from the lines of a text.\<close>

definition whatsapp_participants :: "string \<Rightarrow> json list" where
  "whatsapp_participants text =
     foldl (\<lambda>participants line.
              case search_group msg_pattern line of
                None \<Rightarrow> participants
              | Some sender \<Rightarrow> set_add (JStr sender) participants)
           [] (readlines text)"

text \<open>
  Everything up to the \<open>return\<close> is inside the \<open>try\<close>; the final
  \<open>sorted(list(participants))\<close> is outside of it.
\<close>

definition extract_participants :: "disk_file \<Rightarrow> string \<Rightarrow> error + json list" where
  "extract_participants file file_type =
     py_sorted
       (if file_type = ''Instagram'' then
          (case file of
             Content text (Some data) \<Rightarrow> instagram_participants data
           | _ \<Rightarrow> [])
        else if file_type = ''WhatsApp'' then
          (case file of
             Content text parsed \<Rightarrow> whatsapp_participants text
           | _ \<Rightarrow> [])
        else [])"

section \<open>Fingerprints and the duplicate gate (api.py)\<close>

text \<open>
  The hash is a parameter: \<open>md5 s\<close> stands for the hexadecimal MD5 digest of the encoded
  string. A fingerprint is its first 12 characters.
\<close>

definition fingerprint_of :: "(string \<Rightarrow> string) \<Rightarrow> string \<Rightarrow> string \<Rightarrow> string" where
  "fingerprint_of md5 sender text = take 12 (md5 (sender @ '':'' @ text))"

definition boundary :: "int \<Rightarrow> 'a list \<Rightarrow> 'a list" where
  "boundary n xs = slice_to n xs @ slice_from (- n) xs"

text \<open>
  The loop over the boundary messages of the Instagram branch: a message that is no
  dictionary raises, which ends the loop with the fingerprints collected so far.
\<close>

fun fingerprint_loop ::
  "(string \<Rightarrow> string) \<Rightarrow> (json \<Rightarrow> string) \<Rightarrow> json list \<Rightarrow> string list" where
  "fingerprint_loop md5 repr [] = []"
| "fingerprint_loop md5 repr (msg # rest) =
     (case py_get msg ''sender_name'' (JStr '''') of
        Inl e \<Rightarrow> []
      | Inr sender \<Rightarrow>
          (case py_get msg ''content'' (JStr '''') of
             Inl e \<Rightarrow> []
           | Inr text \<Rightarrow>
               (if truthy text
                then [fingerprint_of md5 (py_str repr sender) (py_str repr text)] else [])
               @ fingerprint_loop md5 repr rest))"

text \<open>
  The fingerprints of a parsed document. When \<open>messages\<close> is a string, the boundary is a
  string, empty or with a first character on which \<open>get\<close> raises; when it is no sequence,
  the slice raises: no fingerprint in either case.
\<close>

definition instagram_fingerprints ::
  "(string \<Rightarrow> string) \<Rightarrow> (json \<Rightarrow> string) \<Rightarrow> json \<Rightarrow> int \<Rightarrow> string list" where
  "instagram_fingerprints md5 repr data n =
     (case py_get data ''messages'' (JArr []) of
        Inr (JArr messages) \<Rightarrow> fingerprint_loop md5 repr (boundary n messages)
      | _ \<Rightarrow> [])"

definition whatsapp_fingerprints :: "(string \<Rightarrow> string) \<Rightarrow> string \<Rightarrow> int \<Rightarrow> string list" where
  "whatsapp_fingerprints md5 text n =
     concat (map (\<lambda>(sender, text). if text \<noteq> '''' then [fingerprint_of md5 sender text] else [])
       (boundary n
          (concat (map (\<lambda>line. case match_group fp_msg_pattern line of
                                  None \<Rightarrow> [] | Some g \<Rightarrow> [g])
                       (readlines text)))))"

text \<open>The whole body is inside the \<open>try\<close>: the set built so far is returned.\<close>

definition extract_message_fingerprints ::
  "(string \<Rightarrow> string) \<Rightarrow> (json \<Rightarrow> string) \<Rightarrow> disk_file \<Rightarrow> int \<Rightarrow> string fset" where
  "extract_message_fingerprints md5 repr file n =
     (let detected_type = classify_file file in
      if detected_type = ''Instagram'' then
        (case file of
           Content text (Some data) \<Rightarrow> fset_of_list (instagram_fingerprints md5 repr data n)
         | _ \<Rightarrow> {||})
      else if detected_type = ''WhatsApp'' then
        (case file of
           Content text parsed \<Rightarrow> fset_of_list (whatsapp_fingerprints md5 text n)
         | _ \<Rightarrow> {||})
      else {||})"

text \<open>
  A fingerprint set is a finite set of tokens. The dictionary of existing fingerprints is
  an association list in the dictionary's iteration order. The threshold and the ratio
  \<open>overlap / min_size\<close> are exact rationals: the rounding of floats is not modelled.
\<close>

fun overlap_loop ::
  "'a fset \<Rightarrow> (string \<times> 'a fset) list \<Rightarrow> rat \<Rightarrow> bool \<times> string option" where
  "overlap_loop new_fingerprints [] threshold = (False, None)"
| "overlap_loop new_fingerprints ((filename, existing_fps) # rest) threshold =
     (if existing_fps = {||} then overlap_loop new_fingerprints rest threshold
      else
        (let overlap = fcard (new_fingerprints |\<inter>| existing_fps);
             min_size = min (fcard new_fingerprints) (fcard existing_fps)
         in if min_size > 0 \<and> of_nat overlap / of_nat min_size \<ge> threshold
            then (True, Some filename)
            else overlap_loop new_fingerprints rest threshold))"

definition check_content_overlap ::
  "'a fset \<Rightarrow> (string \<times> 'a fset) list \<Rightarrow> rat \<Rightarrow> bool \<times> string option" where
  "check_content_overlap new_fingerprints existing_fingerprints threshold =
     (if new_fingerprints = {||} then (False, None)
      else overlap_loop new_fingerprints existing_fingerprints threshold)"

text \<open>A candidate reaches the threshold: its set is not empty and the ratio is large enough.\<close>

definition reaches :: "'a fset \<Rightarrow> rat \<Rightarrow> string \<times> 'a fset \<Rightarrow> bool" where
  "reaches new threshold c =
     (snd c \<noteq> {||} \<and>
      of_nat (fcard (new |\<inter>| snd c)) / of_nat (min (fcard new) (fcard (snd c))) \<ge> threshold)"


section \<open>Vendor A: conversation folders (instagram_zip_processor.py)\<close>

text \<open>
  A conversation folder is its directory listing: the names of its entries with, for each
  of them, the result of opening it and \<open>json.load\<close>, \<open>None\<close> when either raises (as for
  an entry that is a directory). Reading an entry twice gives the same result.
\<close>

type_synonym folder = "(string \<times> json option) list"

text \<open>The name matches the glob pattern \<^verbatim>\<open>message_*.json\<close>.\<close>

definition glob_message :: "string \<Rightarrow> bool" where
  "glob_message fname =
     (startswith fname ''message_'' \<and> endswith fname ''.json'' \<and> 13 \<le> length fname)"

text \<open>\<open>Path.stem\<close> of a name that ends in \<^verbatim>\<open>.json\<close>: the name without this suffix.\<close>

definition stem :: "string \<Rightarrow> string" where
  "stem fname = take (length fname - 5) fname"

text \<open>
  \<open>int(s)\<close>: surrounding whitespace, an optional sign and a non-empty run of at most 4300
  digits (the interpreter's default limit); \<open>None\<close> when \<open>int\<close> raises. The whitespace
  that \<open>int\<close> skips is the tab, the line feed, the vertical tab, the form feed, the
  carriage return, the space, and the characters 0x85 and 0xA0; it does not skip the
  separators 0x1C to 0x1F, which \<open>str.strip\<close> removes. Underscores between digits cannot
  occur in a part of a split on the underscore.
\<close>

definition is_int_space :: "char \<Rightarrow> bool" where
  "is_int_space c =
     (c \<in> {CHR 0x09, CHR 0x0A, CHR 0x0B, CHR 0x0C, CHR 0x0D, CHR '' '', CHR 0x85, CHR 0xA0})"

definition digit_value :: "char \<Rightarrow> nat" where
  "digit_value c = of_char c - 48"

definition nat_of_digits :: "string \<Rightarrow> nat" where
  "nat_of_digits ds = foldl (\<lambda>a c. 10 * a + digit_value c) 0 ds"

definition py_int :: "string \<Rightarrow> int option" where
  "py_int s =
     (let t = rev (dropWhile is_int_space (rev (dropWhile is_int_space s)));
          neg = startswith t ''-'';
          ds = (if t \<noteq> [] \<and> (hd t = CHR ''+'' \<or> hd t = CHR ''-'') then tl t else t)
      in if ds \<noteq> [] \<and> list_all is_digit ds \<and> length ds \<le> 4300
         then Some (if neg then - int (nat_of_digits ds) else int (nat_of_digits ds))
         else None)"

text \<open>The sort key \<open>int(x.stem.split('_')[1])\<close> of a file matched by the glob.\<close>

definition file_number :: "string \<Rightarrow> int option" where
  "file_number fname =
     (case split_on CHR ''_'' (stem fname) of
        a # b # rest \<Rightarrow> py_int b
      | _ \<Rightarrow> None)"

text \<open>
  Sorting with \<open>reverse=True\<close>: descending by the key, elements with equal keys in their
  original order.
\<close>

definition sort_desc :: "('a \<Rightarrow> 'k::linorder) \<Rightarrow> 'a list \<Rightarrow> 'a list" where
  "sort_desc f xs = rev (sort_key f (rev xs))"

text \<open>\<open>folder_path.glob("message_*.json")\<close>, in the order of the listing.\<close>

definition glob_messages :: "folder \<Rightarrow> folder" where
  "glob_messages folder_path = filter (\<lambda>f. glob_message (fst f)) folder_path"

text \<open>
  The glob result sorted by \<open>int(x.stem.split('_')[1])\<close> with \<open>reverse=True\<close>; the key of
  every file is computed first, and \<open>int\<close> raises on a suffix that is no integer.
\<close>

definition message_files :: "folder \<Rightarrow> error + folder" where
  "message_files folder_path =
     (if list_ex (\<lambda>f. file_number (fst f) = None) (glob_messages folder_path)
      then Inl ValueError
      else Inr (sort_desc (\<lambda>f. the (file_number (fst f))) (glob_messages folder_path)))"

text \<open>
  The base file: \<open>message_1.json\<close> if it exists, else the last of the sorted files; the
  result of loading it, \<open>None\<close> when that raises.
\<close>

definition first_file :: "folder \<Rightarrow> folder \<Rightarrow> json option" where
  "first_file folder_path files =
     (case map_of folder_path ''message_1.json'' of
        Some c \<Rightarrow> c
      | None \<Rightarrow> snd (last files))"

text \<open>
  What one round of the loop over the files adds to \<open>all_messages\<close>: nothing when the
  file does not load, when the document is no dictionary (\<open>get\<close> raises) or when its
  \<open>messages\<close> cannot be iterated (\<open>extend\<close> raises before it adds); otherwise the elements
  of the list, or the characters of a string, or the keys of a dictionary.
\<close>

definition file_messages :: "json option \<Rightarrow> json list" where
  "file_messages parsed =
     (case parsed of
        None \<Rightarrow> []
      | Some data \<Rightarrow>
          (case py_get data ''messages'' (JArr []) of
             Inl e \<Rightarrow> []
           | Inr messages \<Rightarrow> (case py_iter messages of Inl e \<Rightarrow> [] | Inr xs \<Rightarrow> xs)))"

text \<open>The sort key \<open>x.get('timestamp_ms', 0)\<close>.\<close>

definition timestamp_key :: "json \<Rightarrow> error + json" where
  "timestamp_key x = py_get x ''timestamp_ms'' (JInt 0)"

definition timestamp_num :: "json \<Rightarrow> rat option" where
  "timestamp_num x = (case timestamp_key x of Inl e \<Rightarrow> None | Inr k \<Rightarrow> num_val k)"

text \<open>
  \<open>all_messages.sort(key=lambda x: x.get('timestamp_ms', 0))\<close>. The key of every element
  is computed first, and \<open>get\<close> raises on an element that is no dictionary. Up to one
  element is never compared. Keys that are all numbers are sorted by their value, equal
  keys in their original order. What the library sort does with two or more keys of
  which one is no number (it may raise, or order strings or lists) is the parameter
  \<open>lib_sort\<close>.
\<close>

definition sort_messages ::
  "(json list \<Rightarrow> error + json list) \<Rightarrow> json list \<Rightarrow> error + json list" where
  "sort_messages lib_sort all_messages =
     (if list_ex (\<lambda>x. \<not> is_obj x) all_messages then Inl AttributeError
      else if length all_messages \<le> 1 then Inr all_messages
      else if list_all (\<lambda>x. timestamp_num x \<noteq> None) all_messages
      then Inr (sort_key (\<lambda>x. the (timestamp_num x)) all_messages)
      else lib_sort all_messages)"

text \<open>
  The merge. An exception leaves it when a suffix is no integer, when the base file does
  not load, when the sort raises, and when the base document is no dictionary (the item
  assignment raises).
\<close>

definition merge_conversation_messages ::
  "(json list \<Rightarrow> error + json list) \<Rightarrow> folder \<Rightarrow> error + json option" where
  "merge_conversation_messages lib_sort folder_path =
     (case message_files folder_path of
        Inl e \<Rightarrow> Inl e
      | Inr files \<Rightarrow>
          if files = [] then Inr None
          else
            (case first_file folder_path files of
               None \<Rightarrow> Inl JSONDecodeError
             | Some combined_data \<Rightarrow>
                 (case sort_messages lib_sort (concat (map (\<lambda>f. file_messages (snd f)) files)) of
                    Inl e \<Rightarrow> Inl e
                  | Inr all_messages \<Rightarrow>
                      (case combined_data of
                         JObj kvs \<Rightarrow>
                           Inr (Some (JObj (dict_set ''messages'' (JArr all_messages) kvs)))
                       | _ \<Rightarrow> Inl TypeError))))"

record preview =
  preview_display_name :: string
  preview_participants :: "json list"
  preview_message_count :: nat

record conv_unit =
  folder_name :: string
  display_name :: string
  message_count :: nat

record ig_unit = conv_unit +
  unit_participants :: "json list"

text \<open>
  The repair of a participant name, \<open>name.encode('latin-1').decode('utf-8')\<close>, is the
  parameter \<open>repair\<close>, \<open>None\<close> when it raises; the name is then kept, as is a name that is
  no string, which has no \<open>encode\<close>.
\<close>

definition fix_name :: "(string \<Rightarrow> string option) \<Rightarrow> json \<Rightarrow> json" where
  "fix_name repair name =
     (case name of
        JStr s \<Rightarrow> (case repair s of Some fixed \<Rightarrow> JStr fixed | None \<Rightarrow> name)
      | _ \<Rightarrow> name)"

text \<open>The loop over the participants: \<open>get\<close> raises on one that is no dictionary.\<close>

fun participant_names :: "(string \<Rightarrow> string option) \<Rightarrow> json list \<Rightarrow> json list option" where
  "participant_names repair [] = Some []"
| "participant_names repair (p # ps) =
     (case py_get p ''name'' (JStr ''Unknown'') of
        Inl e \<Rightarrow> None
      | Inr name \<Rightarrow> map_option ((#) (fix_name repair name)) (participant_names repair ps))"

definition preview_names :: "(string \<Rightarrow> string option) \<Rightarrow> json \<Rightarrow> json list option" where
  "preview_names repair data =
     (case py_contains ''participants'' data of
        Inl e \<Rightarrow> None
      | Inr False \<Rightarrow> Some []
      | Inr True \<Rightarrow>
          (case py_getitem data ''participants'' of
             Inl e \<Rightarrow> None
           | Inr v \<Rightarrow>
               (case py_iter v of
                  Inl e \<Rightarrow> None
                | Inr ps \<Rightarrow> participant_names repair ps)))"

text \<open>What one file adds to the message count: 0 when anything raises.\<close>

definition count_messages :: "json option \<Rightarrow> nat" where
  "count_messages parsed =
     (case parsed of
        None \<Rightarrow> 0
      | Some msg_data \<Rightarrow>
          (case py_get msg_data ''messages'' (JArr []) of
             Inl e \<Rightarrow> 0
           | Inr messages \<Rightarrow> (case py_len messages of Inl e \<Rightarrow> 0 | Inr n \<Rightarrow> n)))"

text \<open>\<open>", ".join(xs)\<close> raises when an element is no string.\<close>

definition join_names :: "json list \<Rightarrow> string option" where
  "join_names xs = (if list_all is_str xs then Some (join '', '' (map str_of xs)) else None)"

text \<open>
  The preview: \<open>None\<close> when \<open>message_1.json\<close> is missing, and when anything inside the
  \<open>try\<close> raises.
\<close>

definition get_conversation_preview ::
  "(string \<Rightarrow> string option) \<Rightarrow> folder \<Rightarrow> preview option" where
  "get_conversation_preview repair folder_path =
     (case map_of folder_path ''message_1.json'' of
        None \<Rightarrow> None
      | Some None \<Rightarrow> None
      | Some (Some data) \<Rightarrow>
          (case preview_names repair data of
             None \<Rightarrow> None
           | Some participants \<Rightarrow>
               (let message_count = sum_list (map (\<lambda>f. count_messages (snd f))
                                                  (glob_messages folder_path))
                in case join_names (take 2 participants) of
                     None \<Rightarrow> None
                   | Some shown \<Rightarrow>
                       Some \<lparr>preview_display_name =
                               (if length participants > 2
                                then shown @ '' +'' @ string_of_nat (length participants - 2)
                                else shown),
                             preview_participants = participants,
                             preview_message_count = message_count\<rparr>)))"

text \<open>
  An extracted vendor-A archive, as far as \<open>find_inbox_path\<close> looks: the inbox at the
  fixed subpath of the root, and for every entry of the root, whether it is a directory
  and the inboxes at the two subpaths tried below it. An inbox path that is absent or no
  directory is \<open>None\<close>. An inbox is its listing.
\<close>

datatype inbox_entry = NotADir | Folder folder

type_synonym inbox = "(string \<times> inbox_entry) list"

record root_item =
  item_is_dir :: bool
  item_activity_inbox :: "inbox option"
  item_messages_inbox :: "inbox option"

record extracted_root =
  root_activity_inbox :: "inbox option"
  root_items :: "root_item list"

text \<open>The first of the candidate paths that exists.\<close>

fun first_existing :: "'a option list \<Rightarrow> 'a option" where
  "first_existing [] = None"
| "first_existing (None # ps) = first_existing ps"
| "first_existing (Some p # ps) = Some p"

definition find_inbox_path :: "extracted_root \<Rightarrow> inbox option" where
  "find_inbox_path extracted_path =
     first_existing
       (root_activity_inbox extracted_path #
        concat (map (\<lambda>item. if item_is_dir item
                             then [item_activity_inbox item, item_messages_inbox item] else [])
                    (root_items extracted_path)))"

text \<open>One iteration of the loop over the entries of the inbox.\<close>

definition conversation_of ::
  "(string \<Rightarrow> string option) \<Rightarrow> string \<times> inbox_entry \<Rightarrow> ig_unit list" where
  "conversation_of repair e =
     (case snd e of
        NotADir \<Rightarrow> []
      | Folder folder \<Rightarrow>
          if glob_messages folder = [] then []
          else (case get_conversation_preview repair folder of
                  None \<Rightarrow> []
                | Some preview \<Rightarrow>
                    [\<lparr>folder_name = fst e,
                      display_name = preview_display_name preview,
                      message_count = preview_message_count preview,
                      unit_participants = preview_participants preview\<rparr>]))"

definition find_conversations ::
  "(string \<Rightarrow> string option) \<Rightarrow> extracted_root \<Rightarrow> ig_unit list" where
  "find_conversations repair extracted_path =
     (case find_inbox_path extracted_path of
        None \<Rightarrow> []
      | Some inbox_path \<Rightarrow>
          sort_desc message_count (concat (map (conversation_of repair) inbox_path)))"

section \<open>Vendor B: channels (discord_zip_processor.py)\<close>

text \<open>
  A JSON file of the channel tree: missing, present and failing to load, or parsed to any
  JSON value. A channel folder is its two files. The conversion of a timestamp string to
  milliseconds (\<open>strptime\<close> and \<open>timestamp()\<close>) is a parameter \<open>strptime_ms\<close>, \<open>None\<close> when
  it raises.
\<close>

datatype json_file = Missing | Malformed | Parsed json

record channel_folder =
  channel_json :: json_file
  messages_json :: json_file

text \<open>\<open>load_index_json\<close> gives the empty dictionary unless the index loads.\<close>

definition load_index_json :: "json_file \<Rightarrow> json" where
  "load_index_json index_path =
     (case index_path of Missing \<Rightarrow> JObj [] | Malformed \<Rightarrow> JObj [] | Parsed index \<Rightarrow> index)"

text \<open>\<open>d.get(k, default)\<close> on the items of a dictionary.\<close>

definition dict_get :: "(string \<times> json) list \<Rightarrow> string \<Rightarrow> json \<Rightarrow> json" where
  "dict_get kvs k dflt = (case map_of kvs k of Some v \<Rightarrow> v | None \<Rightarrow> dflt)"

text \<open>
  The loop of \<open>build_user_id_map\<close>: a message that is no dictionary raises, and the map
  built so far is returned.
\<close>

fun user_map_loop ::
  "(json \<Rightarrow> string) \<Rightarrow> json list \<Rightarrow> (string \<times> json) list \<Rightarrow> (string \<times> json) list" where
  "user_map_loop repr [] user_map = user_map"
| "user_map_loop repr (msg # rest) user_map =
     (case py_get msg ''Author'' JNull of
        Inl e \<Rightarrow> user_map
      | Inr author \<Rightarrow>
          (case author of
             JObj a \<Rightarrow>
               (let user_id = dict_get a ''ID'' JNull;
                    username = dict_get a ''Username'' JNull
                in if truthy user_id \<and> truthy username
                   then user_map_loop repr rest (dict_set (py_str repr user_id) username user_map)
                   else user_map_loop repr rest user_map)
           | _ \<Rightarrow> user_map_loop repr rest user_map))"

definition build_user_id_map :: "(json \<Rightarrow> string) \<Rightarrow> json_file \<Rightarrow> (string \<times> json) list" where
  "build_user_id_map repr messages_json_path =
     (case messages_json_path of
        Missing \<Rightarrow> []
      | Malformed \<Rightarrow> []
      | Parsed messages \<Rightarrow>
          (case py_iter messages of
             Inl e \<Rightarrow> []
           | Inr msgs \<Rightarrow> user_map_loop repr msgs []))"

text \<open>
  The state of the participant loops is the list \<open>participants\<close> and the set
  \<open>seen_names\<close>. Testing a name against the set hashes it and raises on a list or a
  dictionary.
\<close>

definition add_participant ::
  "json \<Rightarrow> json list \<times> json list \<Rightarrow> (json list \<times> json list) option" where
  "add_participant username st =
     (case st of (participants, seen_names) \<Rightarrow>
        if \<not> hashable username then None
        else if list_ex (scalar_eq username) seen_names then Some (participants, seen_names)
        else Some (participants @ [JObj [(''name'', username)]], seen_names @ [username]))"

fun add_participants ::
  "(string \<times> json) list \<Rightarrow> json list \<times> json list \<Rightarrow> (json list \<times> json list) option" where
  "add_participants [] st = Some st"
| "add_participants (kv # rest) st =
     (case add_participant (snd kv) st of
        None \<Rightarrow> None
      | Some st1 \<Rightarrow> add_participants rest st1)"

text \<open>\<open>s.rsplit(sep, 1)[0]\<close> when \<open>sep\<close> occurs in \<open>s\<close>: the text before its last occurrence.\<close>

definition rsplit_head :: "char \<Rightarrow> string \<Rightarrow> string" where
  "rsplit_head sep s = (if sep \<in> set s then rev (tl (dropWhile (\<lambda>c. c \<noteq> sep) (rev s))) else s)"

text \<open>
  The participants taken from the index entry of the channel id. It raises when the
  channel document or the index is no dictionary, and when the index entry is no string.
\<close>

definition participants_from_index ::
  "(json \<Rightarrow> string) \<Rightarrow> json \<Rightarrow> json \<Rightarrow> json list \<times> json list
     \<Rightarrow> (json list \<times> json list) option" where
  "participants_from_index repr index_map channel_data st =
     (case py_get channel_data ''id'' (JStr '''') of
        Inl e \<Rightarrow> None
      | Inr channel_id \<Rightarrow>
          if \<not> truthy channel_id then Some st
          else
            (case py_get index_map (py_str repr channel_id) (JStr '''') of
               Inl e \<Rightarrow> None
             | Inr (JStr shown) \<Rightarrow>
                 if startswith shown ''Direct Message with '' then
                   (let username = rsplit_head CHR ''#'' (drop 20 shown) in
                    case (if username \<noteq> '''' then add_participant (JStr username) st
                          else Some st) of
                      None \<Rightarrow> None
                    | Some st1 \<Rightarrow> add_participant (JStr ''Me'') st1)
                 else Some st
             | Inr other \<Rightarrow> None))"

text \<open>
  The participants of \<open>convert_discord_to_instagram_format\<close>, before the final fallback:
  from the authors of the messages, else from the index entry of the channel. Reading a
  \<open>channel.json\<close> that exists and does not load raises.
\<close>

definition resolve_participants ::
  "(json \<Rightarrow> string) \<Rightarrow> json \<Rightarrow> channel_folder \<Rightarrow> json list option" where
  "resolve_participants repr index_map folder_path =
     (case add_participants (build_user_id_map repr (messages_json folder_path)) ([], []) of
        None \<Rightarrow> None
      | Some st0 \<Rightarrow>
          if fst st0 = [] \<and> channel_json folder_path \<noteq> Missing
          then (case channel_json folder_path of
                  Parsed channel_data \<Rightarrow>
                    map_option fst (participants_from_index repr index_map channel_data st0)
                | _ \<Rightarrow> None)
          else Some (fst st0))"

text \<open>The timestamp of a message: 0 when the value is no string or cannot be converted.\<close>

definition timestamp_of :: "(string \<Rightarrow> int option) \<Rightarrow> json \<Rightarrow> int" where
  "timestamp_of strptime_ms timestamp_str =
     (case timestamp_str of
        JStr s \<Rightarrow> (case strptime_ms s of Some t \<Rightarrow> t | None \<Rightarrow> 0)
      | _ \<Rightarrow> 0)"

text \<open>The sender name that the loop gives to a message, a dictionary with the given items.\<close>

definition sender_of :: "(json \<Rightarrow> string) \<Rightarrow> (string \<times> json) list \<Rightarrow> json" where
  "sender_of repr msg =
     (case map_of msg ''Author'' of
        None \<Rightarrow> JStr ''Discord_User''
      | Some (JObj author) \<Rightarrow>
          dict_get author ''Username'' (dict_get author ''ID'' (JStr ''Unknown''))
      | Some author \<Rightarrow> JStr (py_str repr author))"

text \<open>
  One round of the message loop: \<open>None\<close> when it raises, on a message that is no
  dictionary; no entry for a message whose content is empty or absent.
\<close>

definition convert_message ::
  "(string \<Rightarrow> int option) \<Rightarrow> (json \<Rightarrow> string) \<Rightarrow> json \<Rightarrow> json list option" where
  "convert_message strptime_ms repr msg =
     (case msg of
        JObj kvs \<Rightarrow>
          (let content = dict_get kvs ''Contents'' (JStr '''') in
           if \<not> truthy content then Some []
           else
             (let timestamp_str = dict_get kvs ''Timestamp'' (JStr '''');
                  timestamp_ms = timestamp_of strptime_ms timestamp_str;
                  sender_name = sender_of repr kvs
              in Some [JObj [(''sender_name'', sender_name),
                             (''content'', content),
                             (''timestamp_ms'', JInt timestamp_ms)]]))
      | _ \<Rightarrow> None)"

fun convert_messages ::
  "(string \<Rightarrow> int option) \<Rightarrow> (json \<Rightarrow> string) \<Rightarrow> json list \<Rightarrow> json list option" where
  "convert_messages strptime_ms repr [] = Some []"
| "convert_messages strptime_ms repr (msg # rest) =
     (case convert_message strptime_ms repr msg of
        None \<Rightarrow> None
      | Some entries \<Rightarrow>
          (case convert_messages strptime_ms repr rest of
             None \<Rightarrow> None
           | Some others \<Rightarrow> Some (entries @ others)))"

text \<open>
  The test inside \<open>any\<close>: \<open>msg.get('sender_name')\<close> is not in the list
  \<open>['Unknown', 'Discord_User', None]\<close>.
\<close>

definition real_sender :: "json \<Rightarrow> bool" where
  "real_sender msg =
     (case py_get msg ''sender_name'' JNull of
        Inl e \<Rightarrow> False
      | Inr sender_name \<Rightarrow>
          sender_name \<notin> set [JStr ''Unknown'', JStr ''Discord_User'', JNull])"

text \<open>The sort key \<open>x["timestamp_ms"]\<close> of a converted message, an integer.\<close>

definition entry_timestamp :: "json \<Rightarrow> int" where
  "entry_timestamp x =
     (case py_getitem x ''timestamp_ms'' of Inr (JInt t) \<Rightarrow> t | _ \<Rightarrow> 0)"

definition sender_warning :: string where
  "sender_warning =
     ''This Discord export uses an older format without sender information. '' @
     ''All messages will appear as 'Discord_User'. For proper AI training, '' @
     ''request a new data export from Discord which includes Author data.''"

text \<open>
  Every exception inside the function is caught and gives \<open>None\<close>. The index file is the
  \<open>index.json\<close> of the parent of the channel folder.
\<close>

definition convert_discord_to_instagram_format ::
  "(string \<Rightarrow> int option) \<Rightarrow> (json \<Rightarrow> string) \<Rightarrow> json_file \<Rightarrow> channel_folder
     \<Rightarrow> json option" where
  "convert_discord_to_instagram_format strptime_ms repr index_path folder_path =
     (case messages_json folder_path of
        Missing \<Rightarrow> None
      | Malformed \<Rightarrow> None
      | Parsed discord_messages \<Rightarrow>
          (case resolve_participants repr (load_index_json index_path) folder_path of
             None \<Rightarrow> None
           | Some resolved \<Rightarrow>
               (case py_iter discord_messages of
                  Inl e \<Rightarrow> None
                | Inr msgs \<Rightarrow>
                    (case convert_messages strptime_ms repr msgs of
                       None \<Rightarrow> None
                     | Some instagram_messages \<Rightarrow>
                         (let participants =
                                (if resolved = [] then [JObj [(''name'', JStr ''Discord_User'')]]
                                 else resolved);
                              has_sender_info = list_ex real_sender instagram_messages
                          in Some (JObj
                               ([(''participants'', JArr participants),
                                 (''messages'',
                                    JArr (rev (sort_key entry_timestamp instagram_messages))),
                                 (''has_sender_info'', JBool has_sender_info)]
                                @ (if \<not> has_sender_info
                                   then [(''warning'', JStr sender_warning)] else []))))))))"

text \<open>
  An extracted vendor-B archive, as far as \<open>find_messages_path\<close> looks: what is at the
  two spellings of the messages path at the root and below every entry of the root. The
  function tests for existence only, so what it returns can be a regular file. A
  messages folder is its index file and its listing.
\<close>

datatype dm_entry = PlainFile | ChannelDir channel_folder

record messages_dir =
  index_json :: json_file
  dir_entries :: "(string \<times> dm_entry) list"










section \<open>Archive extraction (\<open>extract_zip\<close> of both processors)\<close>

text \<open>
  The file system maps an absolute path, the list of its components below the root
  \<open>[]\<close>, to its node. In a file system every entry lies in a directory. Permissions,
  links, limits on names and full disks are not modelled, and neither is the component
  \<open>..\<close>, which a path of this model cannot resolve.
\<close>

type_synonym path = "string list"

datatype node = Dir | File string

type_synonym filesystem = "path \<Rightarrow> node option"

definition well_formed :: "filesystem \<Rightarrow> bool" where
  "well_formed fs = (\<forall>p c. fs (p @ [c]) \<noteq> None \<longrightarrow> fs p = Some Dir)"

definition is_file :: "node option \<Rightarrow> bool" where
  "is_file n = (case n of Some (File bytes) \<Rightarrow> True | _ \<Rightarrow> False)"

text \<open>
  An archive is the list of its members in the order of its directory: the name of a
  member and its data, which is stored intact (\<open>Stored\<close>), is written out before the
  check of its checksum fails (\<open>Corrupt\<close>), or cannot be opened for reading at all
  (\<open>Unopenable\<close>: encrypted, or compressed by an unsupported method).
\<close>

datatype payload = Stored string | Corrupt string | Unopenable

type_synonym archive = "(string \<times> payload) list"

text \<open>\<open>ZipInfo\<close> cuts a name at its first NUL character.\<close>

definition zipinfo_filename :: "string \<Rightarrow> string" where
  "zipinfo_filename raw = takeWhile (\<lambda>c. c \<noteq> CHR 0x00) raw"

definition namelist :: "archive \<Rightarrow> string list" where
  "namelist zip_ref = map (\<lambda>m. zipinfo_filename (fst m)) zip_ref"

text \<open>\<open>getinfo(name)\<close>: of the members with this name, the directory keeps the last.\<close>

definition getinfo :: "archive \<Rightarrow> string \<Rightarrow> payload" where
  "getinfo zip_ref name = snd (last (filter (\<lambda>m. zipinfo_filename (fst m) = name) zip_ref))"

text \<open>
  The target of a member below the extraction directory: the components of its name
  without the empty ones, \<open>.\<close> and \<open>..\<close>. A member is a directory iff its name ends in a
  slash.
\<close>

definition member_path :: "string \<Rightarrow> path" where
  "member_path filename =
     filter (\<lambda>x. x \<notin> set ['''', ''.'', ''..'']) (split_on CHR ''/'' filename)"

definition member_is_dir :: "string \<Rightarrow> bool" where
  "member_is_dir filename = endswith filename ''/''"

text \<open>\<open>TEMP_ZIP_DIR / zip_id\<close>: an absolute id replaces the base.\<close>

definition path_join :: "path \<Rightarrow> string \<Rightarrow> path" where
  "path_join base s =
     (if startswith s ''/'' then [] else base)
     @ filter (\<lambda>x. x \<notin> set ['''', ''.'']) (split_on CHR ''/'' s)"

text \<open>The directory of the module is a parameter, \<open>backend\<close>.\<close>

definition TEMP_ZIP_DIR :: "path \<Rightarrow> path" where
  "TEMP_ZIP_DIR backend = backend @ [''temp_zip'']"

text \<open>
  \<open>shutil.rmtree\<close> of a path that exists: it raises on a regular file, and on the root,
  which it empties but cannot remove.
\<close>

definition rmtree :: "filesystem \<Rightarrow> path \<Rightarrow> filesystem \<times> error option" where
  "rmtree fs d =
     (if fs d \<noteq> Some Dir then (fs, Some OSError)
      else if d = [] then ((\<lambda>p. if p = [] then Some Dir else None), Some OSError)
      else ((\<lambda>p. if prefix d p then None else fs p), None))"

text \<open>
  \<open>os.makedirs\<close> of a path that does not exist: it raises, before it creates anything,
  when a regular file is in the way, and creates the missing directories otherwise.
\<close>

definition makedirs :: "filesystem \<Rightarrow> path \<Rightarrow> error + filesystem" where
  "makedirs fs d =
     (if list_ex (\<lambda>p. is_file (fs p)) (prefixes d) then Inl OSError
      else Inr (\<lambda>p. if prefix p d \<and> fs p = None then Some Dir else fs p))"

text \<open>\<open>extract_dir.mkdir(parents=True)\<close>: it also raises when the path exists.\<close>

definition mkdir_parents :: "filesystem \<Rightarrow> path \<Rightarrow> error + filesystem" where
  "mkdir_parents fs d = (if fs d \<noteq> None then Inl OSError else makedirs fs d)"

text \<open>
  \<open>_extract_member\<close>: the upper directories are created if the parent of the target does
  not exist. A directory member is made unless the target is a directory already; a
  file member is opened in the archive, then its target is opened for writing, then the
  data is copied. The result is the new file system and the exception raised, if any.
\<close>

definition extract_member ::
  "path \<Rightarrow> filesystem \<Rightarrow> string \<times> payload \<Rightarrow> filesystem \<times> error option" where
  "extract_member d fs m =
     (let targetpath = d @ member_path (fst m);
          upperdirs = butlast targetpath
      in case (if fs upperdirs = None then makedirs fs upperdirs else Inr fs) of
           Inl e \<Rightarrow> (fs, Some e)
         | Inr fs1 \<Rightarrow>
             if member_is_dir (fst m) then
               (if fs1 targetpath = Some Dir then (fs1, None)
                else if fs1 targetpath \<noteq> None \<or> fs1 upperdirs \<noteq> Some Dir
                then (fs1, Some OSError)
                else (fs1(targetpath \<mapsto> Dir), None))
             else
               (case snd m of
                  Unopenable \<Rightarrow> (fs1, Some BadZipFile)
                | Stored bytes \<Rightarrow>
                    if fs1 targetpath = Some Dir \<or> fs1 upperdirs \<noteq> Some Dir
                    then (fs1, Some OSError)
                    else (fs1(targetpath \<mapsto> File bytes), None)
                | Corrupt bytes \<Rightarrow>
                    if fs1 targetpath = Some Dir \<or> fs1 upperdirs \<noteq> Some Dir
                    then (fs1, Some OSError)
                    else (fs1(targetpath \<mapsto> File bytes), Some BadZipFile)))"

text \<open>The loop of \<open>extractall\<close> ends at the first exception.\<close>

fun extract_members ::
  "path \<Rightarrow> filesystem \<Rightarrow> (string \<times> payload) list \<Rightarrow> filesystem \<times> error option" where
  "extract_members d fs [] = (fs, None)"
| "extract_members d fs (m # ms) =
     (case extract_member d fs m of
        (fs1, Some e) \<Rightarrow> (fs1, Some e)
      | (fs1, None) \<Rightarrow> extract_members d fs1 ms)"

text \<open>
  \<open>extractall\<close> goes through the names of the archive and extracts, for each name, the
  member that \<open>getinfo\<close> finds.
\<close>

definition members_by_name :: "archive \<Rightarrow> (string \<times> payload) list" where
  "members_by_name zip_ref = map (\<lambda>name. (name, getinfo zip_ref name)) (namelist zip_ref)"

definition extractall :: "filesystem \<Rightarrow> path \<Rightarrow> archive \<Rightarrow> filesystem \<times> error option" where
  "extractall fs d zip_ref = extract_members d fs (members_by_name zip_ref)"

text \<open>
  \<open>extract_zip\<close> returns the new file system with the extraction directory, or with the
  exception raised. What is no archive cannot be opened (\<open>None\<close>). A NUL character in the
  id makes \<open>exists\<close> answer no and \<open>mkdir\<close> raise. An extraction directory with a
  component \<open>..\<close> is outside of this model, which says so (\<open>NotModelled\<close>).
\<close>

definition extract_zip ::
  "path \<Rightarrow> filesystem \<Rightarrow> archive option \<Rightarrow> string \<Rightarrow> filesystem \<times> (error + path)" where
  "extract_zip backend fs zip_path zip_id =
     (let extract_dir = path_join (TEMP_ZIP_DIR backend) zip_id in
      if ''..'' \<in> set extract_dir then (fs, Inl NotModelled)
      else if CHR 0x00 \<in> set zip_id then (fs, Inl ValueError)
      else
        (case (if fs extract_dir \<noteq> None then rmtree fs extract_dir else (fs, None)) of
           (fs1, Some e) \<Rightarrow> (fs1, Inl e)
         | (fs1, None) \<Rightarrow>
             (case mkdir_parents fs1 extract_dir of
                Inl e \<Rightarrow> (fs1, Inl e)
              | Inr fs2 \<Rightarrow>
                  (case zip_path of
                     None \<Rightarrow> (fs2, Inl BadZipFile)
                   | Some zip_ref \<Rightarrow>
                       (case extractall fs2 extract_dir zip_ref of
                          (fs3, Some e) \<Rightarrow> (fs3, Inl e)
                        | (fs3, None) \<Rightarrow> (fs3, Inr extract_dir))))))"

text \<open>The contents of a directory, by paths relative to it.\<close>

definition subtree :: "filesystem \<Rightarrow> path \<Rightarrow> filesystem" where
  "subtree fs d = (\<lambda>q. fs (d @ q))"

section \<open>The claims' wording\<close>

text \<open>
  The spec's numbered message file: \<open>message_N.json\<close> with \<open>N\<close> a non-empty run of digits.
\<close>

definition numbered_message_file :: "string \<Rightarrow> bool" where
  "numbered_message_file fname =
     (glob_message fname \<and> drop 8 (stem fname) \<noteq> [] \<and> list_all is_digit (drop 8 (stem fname)))"

text \<open>
  The message array of a file: the list at \<open>messages\<close> of a file that parses to an
  object. A file that does not parse to an object, or has no list there, has none.
\<close>

definition message_array :: "json option \<Rightarrow> json list" where
  "message_array parsed =
     (case parsed of
        Some (JObj kvs) \<Rightarrow> (case map_of kvs ''messages'' of Some (JArr xs) \<Rightarrow> xs | _ \<Rightarrow> [])
      | _ \<Rightarrow> [])"

text \<open>The integer timestamp of a message, 0 when it has none.\<close>

definition timestamp_ms :: "json \<Rightarrow> int" where
  "timestamp_ms x =
     (case x of
        JObj kvs \<Rightarrow> (case map_of kvs ''timestamp_ms'' of Some (JInt t) \<Rightarrow> t | _ \<Rightarrow> 0)
      | _ \<Rightarrow> 0)"

text \<open>A message that is an object whose \<open>timestamp_ms\<close> is absent or an integer.\<close>

definition plain_message :: "json \<Rightarrow> bool" where
  "plain_message x =
     (case x of
        JObj kvs \<Rightarrow>
          (case map_of kvs ''timestamp_ms'' of
             None \<Rightarrow> True
           | Some (JInt t) \<Rightarrow> True
           | Some other \<Rightarrow> False)
      | _ \<Rightarrow> False)"

text \<open>
  A file that, if it parses to an object, has \<open>messages\<close> absent or an array of such
  messages.
\<close>

definition plain_file :: "json option \<Rightarrow> bool" where
  "plain_file parsed =
     (case parsed of
        Some (JObj kvs) \<Rightarrow>
          (case map_of kvs ''messages'' of
             None \<Rightarrow> True
           | Some (JArr xs) \<Rightarrow> list_all plain_message xs
           | Some other \<Rightarrow> False)
      | _ \<Rightarrow> True)"

text \<open>A participant that is an object whose \<open>name\<close> is absent or a string.\<close>

definition named_participant :: "json \<Rightarrow> bool" where
  "named_participant p =
     (case p of
        JObj kvs \<Rightarrow>
          (case map_of kvs ''name'' of
             None \<Rightarrow> True
           | Some (JStr s) \<Rightarrow> True
           | Some other \<Rightarrow> False)
      | _ \<Rightarrow> False)"

text \<open>
  A folder with a \<open>message_1.json\<close> that parses to an object whose \<open>participants\<close> is
  absent or an array of objects, the first two of them with a name that is absent or a
  string.
\<close>

definition previewable :: "folder \<Rightarrow> bool" where
  "previewable folder =
     (case map_of folder ''message_1.json'' of
        Some (Some (JObj kvs)) \<Rightarrow>
          (case map_of kvs ''participants'' of
             None \<Rightarrow> True
           | Some (JArr ps) \<Rightarrow> list_all is_obj ps \<and> list_all named_participant (take 2 ps)
           | Some other \<Rightarrow> False)
      | _ \<Rightarrow> False)"

text \<open>
  The messages of a channel: the elements of its \<open>messages.json\<close> when that is an array.
  The content of a message: its \<open>Contents\<close>, the empty string when it has none.
\<close>

definition array_elems :: "json \<Rightarrow> json list" where
  "array_elems v = (case v of JArr xs \<Rightarrow> xs | _ \<Rightarrow> [])"

definition contents_of :: "json \<Rightarrow> json" where
  "contents_of d =
     (case d of
        JObj kvs \<Rightarrow> (case map_of kvs ''Contents'' of Some c \<Rightarrow> c | None \<Rightarrow> JStr '''')
      | _ \<Rightarrow> JNull)"









section \<open>Example data\<close>

definition example_message :: "int \<Rightarrow> json" where
  "example_message t =
     JObj [(''sender_name'', JStr ''alice''), (''content'', JStr ''hi''),
           (''timestamp_ms'', JInt t)]"

definition example_export :: "json list \<Rightarrow> json" where
  "example_export ms =
     JObj [(''participants'', JArr [JObj [(''name'', JStr ''alice'')],
                                    JObj [(''name'', JStr ''bob'')]]),
           (''messages'', JArr ms)]"

text \<open>The folder of the spec's example: two files with timestamps 300, 400 and 100, 200.\<close>

definition example_folder :: folder where
  "example_folder =
     [(''message_1.json'', Some (example_export [example_message 300, example_message 400])),
      (''message_2.json'', Some (example_export [example_message 100, example_message 200]))]"

text \<open>A library sort for the examples: it raises on whatever it is given.\<close>

definition example_lib_sort :: "json list \<Rightarrow> error + json list" where
  "example_lib_sort xs = Inl TypeError"

text \<open>An extracted vendor-A archive whose inbox holds one folder, with the given files.\<close>

definition example_root :: "folder \<Rightarrow> extracted_root" where
  "example_root files =
     \<lparr>root_activity_inbox = Some [(''alice_1'', Folder files)], root_items = []\<rparr>"

text \<open>
  A timestamp conversion for the examples: it knows one string (read as UTC) and raises
  on every other. The text of a float, a list or a dictionary is not needed in them.
\<close>

definition example_strptime_ms :: "string \<Rightarrow> int option" where
  "example_strptime_ms s = (if s = ''2025-06-16 09:24:12'' then Some 1750065852000 else None)"

definition example_repr :: "json \<Rightarrow> string" where
  "example_repr v = ''?''"

definition example_discord_message :: "string \<Rightarrow> (string \<times> json) list \<Rightarrow> json" where
  "example_discord_message text author =
     JObj ([(''Contents'', JStr text), (''Timestamp'', JStr ''2025-06-16 09:24:12'')] @ author)"

text \<open>A channel whose two messages have authors with distinct user names.\<close>

definition example_channel :: channel_folder where
  "example_channel =
     \<lparr>channel_json = Parsed (JObj [(''id'', JStr ''12''), (''type'', JStr ''DM'')]),
      messages_json = Parsed (JArr
        [example_discord_message ''hi''
           [(''Author'', JObj [(''ID'', JStr ''7''), (''Username'', JStr ''alice'')])],
         example_discord_message ''yo''
           [(''Author'', JObj [(''ID'', JInt 8), (''Username'', JStr ''bob'')])]])\<rparr>"

text \<open>The record that the conversion of \<open>example_channel\<close> returns.\<close>

definition example_converted :: json where
  "example_converted =
     JObj [(''participants'', JArr [JObj [(''name'', JStr ''alice'')],
                                    JObj [(''name'', JStr ''bob'')]]),
           (''messages'', JArr
              [JObj [(''sender_name'', JStr ''bob''), (''content'', JStr ''yo''),
                     (''timestamp_ms'', JInt 1750065852000)],
               JObj [(''sender_name'', JStr ''alice''), (''content'', JStr ''hi''),
                     (''timestamp_ms'', JInt 1750065852000)]]),
           (''has_sender_info'', JBool True)]"

text \<open>A channel whose only message has an author with the user name \<open>null\<close>.\<close>

definition example_null_channel :: channel_folder where
  "example_null_channel =
     \<lparr>channel_json = Missing,
      messages_json = Parsed (JArr
        [example_discord_message ''hi''
           [(''Author'', JObj [(''ID'', JStr ''7''), (''Username'', JNull)])]])\<rparr>"

text \<open>A channel that holds the same message twice.\<close>

definition example_twice_channel :: channel_folder where
  "example_twice_channel =
     \<lparr>channel_json = Missing,
      messages_json = Parsed (JArr
        [example_discord_message ''hi'' [], example_discord_message ''hi'' []])\<rparr>"

text \<open>An extracted vendor-B archive with one direct-message channel and one server channel.\<close>

definition example_messages_dir :: messages_dir where
  "example_messages_dir =
     \<lparr>index_json = Parsed (JObj [(''12'', JStr ''Direct Message with bob#0''),
                                  (''13'', JStr ''general'')]),
      dir_entries =
        [(''index.json'', PlainFile),
         (''c12'', ChannelDir example_channel),
         (''c13'', ChannelDir
            \<lparr>channel_json = Parsed (JObj [(''id'', JStr ''13''), (''type'', JStr ''GUILD_TEXT'')]),
             messages_json = Parsed (JArr [example_discord_message ''hello'' []])\<rparr>)]\<rparr>"



section \<open>Theorems: duplicate gate\<close>

lemma fcard_pos: "s \<noteq> {||} \<Longrightarrow> 0 < fcard s"
  by (metis fcard_fempty fcard_seteq fempty_fsubsetI le_zero_eq not_gr_zero)

lemma overlap_loop_find:
  assumes "new \<noteq> {||}"
  shows "overlap_loop new existing threshold =
     (case find (reaches new threshold) existing of
        None \<Rightarrow> (False, None)
      | Some c \<Rightarrow> (True, Some (fst c)))"
proof (induction existing)
  case Nil
  show ?case by simp
next
  case (Cons c cs)
  obtain f s where c: "c = (f, s)" by (cases c)
  show ?case
  proof (cases "s = {||}")
    case True
    then show ?thesis using Cons c by (simp add: reaches_def)
  next
    case False
    then have "0 < min (fcard new) (fcard s)" using assms by (simp add: fcard_pos)
    then show ?thesis using Cons c False by (simp add: reaches_def Let_def)
  qed
qed

text \<open>
  C1. An empty new fingerprint set is never a duplicate. A non-empty one is reported as a
  duplicate of the first candidate, in iteration order, whose set is non-empty and whose
  overlap ratio \<open>|intersection| / min(|new|, |candidate|)\<close> reaches the threshold, and
  as no duplicate when no candidate does.
\<close>

theorem check_content_overlap_first_match:
  "check_content_overlap new existing threshold =
     (if new = {||} then (False, None)
      else case find (reaches new threshold) existing of
             None \<Rightarrow> (False, None)
           | Some c \<Rightarrow> (True, Some (fst c)))"
  by (simp add: check_content_overlap_def overlap_loop_find)

text \<open>
  The min-size edge case of C1: the new set \<open>{a, b, c, d}\<close> against the single candidate
  \<open>{a}\<close> has ratio 1/1 and is a duplicate at threshold 0.8.
\<close>

theorem check_content_overlap_first_match_witness:
  "check_content_overlap {|''a'', ''b'', ''c'', ''d''|} [(''f'', {|''a''|})] (8 / 10)
     = (True, Some ''f'')"
  using check_content_overlap_first_match
          [of "{|''a'', ''b'', ''c'', ''d''|}" "[(''f'', {|''a''|})]" "8 / 10"]
  by (simp add: reaches_def fcard_finsert_if fcard_fempty)


section \<open>Theorems: classifier and unreadable input\<close>

text \<open>
  C3, as stated, fails: a text with both markers that does not start with a brace or a
  bracket is not tagged Instagram. Here a transcript line quoting both markers is tagged
  WhatsApp.
\<close>

theorem classify_file_markers_counterexample:
  "contains ''1/1/20, 1:12 - Bob: \"participants\": \"messages\":'' ''\"participants\":''
   \<and> contains ''1/1/20, 1:12 - Bob: \"participants\": \"messages\":'' ''\"messages\":''
   \<and> classify_file (Content ''1/1/20, 1:12 - Bob: \"participants\": \"messages\":'' None)
       = ''WhatsApp''"
  by code_simp

text \<open>
  C3, amended. For every file whose first 4096 characters, trimmed, start with \<open>{\<close> or
  \<open>[\<close> and contain both the participants marker and the messages marker,
  \<open>classify_file\<close> returns Instagram, whatever else the text contains (also text that
  matches the timestamp-dash pattern).
\<close>

theorem classify_file_instagram:
  assumes "startswith (strip (take 4096 text)) ''{'' \<or> startswith (strip (take 4096 text)) ''[''"
    and "contains (take 4096 text) ''\"participants\":''"
    and "contains (take 4096 text) ''\"messages\":''"
  shows "classify_file (Content text parsed) = ''Instagram''"
  using assms by (simp add: classify_file_def classify_text_def Let_def)

lemma example_starts: "startswith (strip (take 4096 ''{\"participants\": [], \"messages\": []} 1/1/20, 1:12 - '')) ''{''"
  by code_simp
lemma example_participants_marker: "contains (take 4096 ''{\"participants\": [], \"messages\": []} 1/1/20, 1:12 - '') ''\"participants\":''"
  by code_simp
lemma example_messages_marker: "contains (take 4096 ''{\"participants\": [], \"messages\": []} 1/1/20, 1:12 - '') ''\"messages\":''"
  by code_simp
lemma example_trailing_match: "re_search wa_pattern (take 4096 ''{\"participants\": [], \"messages\": []} 1/1/20, 1:12 - '')"
  by code_simp

text \<open>Witness for C3: a JSON prefix followed by text that matches the WhatsApp pattern.\<close>

theorem classify_file_instagram_witness:
  "re_search wa_pattern (take 4096 ''{\"participants\": [], \"messages\": []} 1/1/20, 1:12 - '')
   \<and> classify_file (Content ''{\"participants\": [], \"messages\": []} 1/1/20, 1:12 - '' None)
       = ''Instagram''"
  using classify_file_instagram[OF disjI1[OF example_starts] example_participants_marker
          example_messages_marker, of None] example_trailing_match by simp


text \<open>
  C7, as stated, fails. The classifier does not parse: a truncated JSON text with both
  markers, on which \<open>json.load\<close> raises, is tagged Instagram and not \<open>NULL\<close>. And
  \<open>extract_participants\<close> sorts outside of its \<open>try\<close>: on a document in which one
  participant has the name \<open>null\<close> and another a string, the exception of the sort leaves
  the function.
\<close>

theorem classify_file_malformed_counterexample:
  "classify_file (Content ''{\"participants\": [], \"messages\": ['' None) = ''Instagram''
   \<and> extract_participants
         (Content ''{\"participants\": [{\"name\": \"bob\"}, {\"name\": null}], \"messages\": []}''
            (Some (JObj [(''participants'', JArr [JObj [(''name'', JStr ''bob'')],
                                                  JObj [(''name'', JNull)]]),
                         (''messages'', JArr [])])))
         ''Instagram''
       = Inl TypeError"
  by code_simp

text \<open>
  C7, amended. For a file that is missing, cannot be opened or cannot be decoded,
  \<open>classify_file\<close> returns \<open>NULL\<close>, \<open>extract_participants\<close> returns the empty list (for
  every type tag) and \<open>extract_message_fingerprints\<close> returns the empty set. For a file
  of which only a prefix can be decoded, the last two hold as well. For a readable file
  whose content fails to parse as JSON, \<open>extract_participants\<close> under the Instagram tag
  returns the empty list, and \<open>extract_message_fingerprints\<close> returns the empty set when
  the classifier tags the file Instagram. The classifier itself only sniffs substrings
  of the prefix.
\<close>

theorem unreadable_input_sentinels:
  "classify_file Absent = ''NULL''
   \<and> classify_file Unreadable = ''NULL''
   \<and> extract_participants Absent file_type = Inr []
   \<and> extract_participants Unreadable file_type = Inr []
   \<and> extract_participants (Prefix_only head) file_type = Inr []
   \<and> extract_message_fingerprints md5 repr Absent n = {||}
   \<and> extract_message_fingerprints md5 repr Unreadable n = {||}
   \<and> extract_message_fingerprints md5 repr (Prefix_only head) n = {||}
   \<and> extract_participants (Content text None) ''Instagram'' = Inr []
   \<and> (classify_file (Content text None) = ''Instagram''
        \<longrightarrow> extract_message_fingerprints md5 repr (Content text None) n = {||})"
  by (simp add: classify_file_def extract_participants_def extract_message_fingerprints_def
      py_sorted_def Let_def)

text \<open>Witness for C7: the truncated JSON text.\<close>

theorem unreadable_input_sentinels_witness:
  "classify_file (Content ''{\"participants\": [], \"messages\": ['' None) = ''Instagram''
   \<and> extract_participants (Content ''{\"participants\": [], \"messages\": ['' None) ''Instagram''
       = Inr []
   \<and> extract_message_fingerprints (\<lambda>s. s) (\<lambda>v. [])
         (Content ''{\"participants\": [], \"messages\": ['' None) 20 = {||}"
proof -
  have c: "classify_file (Content ''{\"participants\": [], \"messages\": ['' None) = ''Instagram''"
    by code_simp
  show ?thesis
    using unreadable_input_sentinels[of "''Instagram''" "''''" "\<lambda>s. s" "\<lambda>v. []" 20
            \<open>''{"participants": [], "messages": [''\<close>] c
    by simp
qed

section \<open>Theorems: vendor-A merge and enumeration\<close>

lemma mset_sort_desc: "mset (sort_desc k xs) = mset xs"
  by (simp add: sort_desc_def)

lemma set_sort_desc: "set (sort_desc k xs) = set xs"
  by (simp add: sort_desc_def)

lemma sort_desc_Nil_iff: "sort_desc k xs = [] \<longleftrightarrow> xs = []"
  by (metis mset_sort_desc mset_zero_iff)


lemma last_sort_desc:
  assumes "xs \<noteq> []"
  shows "last (sort_desc k xs) \<in> set xs \<and> (\<forall>x\<in>set xs. k (last (sort_desc k xs)) \<le> k x)"
proof -
  let ?ys = "sort_key k (rev xs)"
  have setys: "set ?ys = set xs" by simp
  have ne: "?ys \<noteq> []" using assms setys by (metis set_empty)
  then obtain y ys where ys: "?ys = y # ys" by (cases ?ys) auto
  have l: "last (sort_desc k xs) = y" by (simp add: sort_desc_def ys)
  have "sorted (map k (y # ys))" using sorted_sort_key[of k "rev xs"] by (simp only: ys)
  then have le: "\<forall>x\<in>set (y # ys). k y \<le> k x" by auto
  have "y \<in> set xs" using setys ys by (metis list.set_intros(1))
  moreover have "\<forall>x\<in>set xs. k y \<le> k x" using le setys ys by metis
  ultimately show ?thesis using l by simp
qed

lemma mset_concat_map:
  "mset (concat (map g xs)) = sum_mset (image_mset (\<lambda>x. mset (g x)) (mset xs))"
  by (induction xs) simp_all

lemma mset_concat_map_cong:
  "mset xs = mset ys \<Longrightarrow> mset (concat (map g xs)) = mset (concat (map g ys))"
  by (simp add: mset_concat_map)

lemma insort_key_cong_ord:
  assumes "\<forall>y\<in>set ys. (f x \<le> f y) = (g x \<le> g y)"
  shows "insort_key f x ys = insort_key g x ys"
  using assms by (induction ys) simp_all

lemma sort_key_cong_ord:
  assumes "\<forall>x\<in>set xs. \<forall>y\<in>set xs. (f x \<le> f y) = (g x \<le> g y)"
  shows "sort_key f xs = sort_key g xs"
  using assms
proof (induction xs)
  case Nil
  show ?case by simp
next
  case (Cons x xs)
  have ih: "sort_key f xs = sort_key g xs" using Cons by simp
  have "\<forall>y\<in>set (sort_key g xs). (f x \<le> f y) = (g x \<le> g y)" using Cons.prems by simp
  then have "insort_key f x (sort_key g xs) = insort_key g x (sort_key g xs)"
    by (rule insort_key_cong_ord)
  then show ?case by (simp add: ih)
qed

lemma map_of_dict_set:
  "map_of (dict_set k v d) k' = (if k' = k then Some v else map_of d k')"
proof (cases "k \<in> fst ` set d")
  case True
  have a: "k' \<noteq> k \<Longrightarrow> map_of (map (\<lambda>kv. if fst kv = k then (k, v) else kv) d) k' = map_of d k'"
    by (induction d) auto
  have b: "k \<in> fst ` set d \<Longrightarrow> map_of (map (\<lambda>kv. if fst kv = k then (k, v) else kv) d) k = Some v"
    by (induction d) auto
  show ?thesis using True a b by (simp add: dict_set_def)
next
  case False
  then have "map_of d k = None" by (simp add: map_of_eq_None_iff)
  then show ?thesis using False by (auto simp: dict_set_def map_add_def split: option.splits)
qed

lemma py_getitem_dict_set:
  "py_getitem (JObj (dict_set k v d)) k' = (if k' = k then Inr v else py_getitem (JObj d) k')"
  by (simp add: py_getitem_def map_of_dict_set)

lemma glob_message_1: "glob_message ''message_1.json''"
  by (simp add: glob_message_def startswith_def endswith_def)

lemma map_of_glob:
  assumes "map_of folder ''message_1.json'' = Some c"
  shows "(''message_1.json'', c) \<in> set (glob_messages folder)"
  using assms by (auto simp: glob_messages_def glob_message_1 dest: map_of_SomeD)

lemma message_files_Inr:
  assumes "\<forall>f\<in>set (glob_messages folder). file_number (fst f) \<noteq> None"
  shows "message_files folder =
           Inr (sort_desc (\<lambda>f. the (file_number (fst f))) (glob_messages folder))"
  using assms by (auto simp: message_files_def list_ex_iff)

lemma message_files_set:
  assumes "message_files folder = Inr files"
  shows "mset files = mset (glob_messages folder)"
  using assms by (auto simp: message_files_def mset_sort_desc split: if_splits)

lemma plain_file_messages:
  assumes "plain_file parsed"
  shows "file_messages parsed = message_array parsed
       \<and> list_all plain_message (message_array parsed)"
proof (cases parsed)
  case None
  then show ?thesis by (simp add: file_messages_def message_array_def)
next
  case (Some data)
  show ?thesis
  proof (cases data)
    case (JObj kvs)
    show ?thesis
    proof (cases "map_of kvs ''messages''")
      case None
      then show ?thesis using Some JObj
        by (simp add: file_messages_def message_array_def py_get_def py_iter_def)
    next
      case (Some v)
      then show ?thesis using \<open>parsed = Some data\<close> JObj assms
        by (cases v)
           (simp_all add: file_messages_def message_array_def py_get_def py_iter_def
              plain_file_def)
    qed
  qed (use Some in \<open>simp_all add: file_messages_def message_array_def py_get_def\<close>)
qed

lemma plain_message_key:
  assumes "plain_message x"
  shows "is_obj x \<and> timestamp_num x = Some (of_int (timestamp_ms x))"
proof (cases x)
  case (JObj kvs)
  show ?thesis
  proof (cases "map_of kvs ''timestamp_ms''")
    case None
    then show ?thesis using JObj
      by (simp add: is_obj_def timestamp_num_def timestamp_key_def py_get_def num_val_def
          timestamp_ms_def)
  next
    case (Some v)
    then show ?thesis using JObj assms
      by (cases v)
         (simp_all add: is_obj_def timestamp_num_def timestamp_key_def py_get_def num_val_def
            timestamp_ms_def plain_message_def)
  qed
qed (use assms in \<open>simp_all add: plain_message_def\<close>)

lemma sort_key_short: "length xs \<le> 1 \<Longrightarrow> sort_key k xs = xs"
  by (cases xs) (simp_all add: length_Suc_conv)

lemma sort_messages_plain:
  assumes "list_all plain_message xs"
  shows "sort_messages lib_sort xs = Inr (sort_key timestamp_ms xs)"
proof -
  have k: "\<forall>x\<in>set xs. is_obj x \<and> timestamp_num x = Some (of_int (timestamp_ms x))"
    using assms plain_message_key by (simp add: list_all_iff)
  have a: "\<not> list_ex (\<lambda>x. \<not> is_obj x) xs" using k by (simp add: list_ex_iff)
  have b: "list_all (\<lambda>x. timestamp_num x \<noteq> None) xs" using k by (simp add: list_all_iff)
  have "\<forall>x\<in>set xs. \<forall>y\<in>set xs.
          (the (timestamp_num x) \<le> the (timestamp_num y)) = (timestamp_ms x \<le> timestamp_ms y)"
    using k by simp
  then have c: "sort_key (\<lambda>x. the (timestamp_num x)) xs = sort_key timestamp_ms xs"
    by (rule sort_key_cong_ord)
  show ?thesis
  proof (cases "length xs \<le> 1")
    case True
    then show ?thesis using a by (simp add: sort_messages_def sort_key_short)
  next
    case False
    then show ?thesis using a b c by (simp add: sort_messages_def)
  qed
qed

lemma example_numbers: "\<forall>f\<in>set (glob_messages example_folder). file_number (fst f) \<noteq> None"
  by code_simp

lemma example_base: "first_file example_folder
     (sort_desc (\<lambda>f. the (file_number (fst f))) (glob_messages example_folder))
   = Some (example_export [example_message 300, example_message 400])"
  by code_simp

lemma example_plain: "\<forall>f\<in>set (glob_messages example_folder). plain_file (snd f)"
  by code_simp

lemma example_sorted: "sort_key timestamp_ms
                        (concat (map (\<lambda>f. message_array (snd f))
                           (sort_desc (\<lambda>f. the (file_number (fst f))) (glob_messages example_folder))))
   = [example_message 100, example_message 200, example_message 300, example_message 400]"
  by code_simp

lemma example_nonempty: "glob_messages example_folder \<noteq> []"
  by code_simp

lemma example_merge:
  "merge_conversation_messages example_lib_sort example_folder =
     Inr (Some (example_export [example_message 100, example_message 200,
                                example_message 300, example_message 400]))"
  by code_simp

text \<open>
  C2, as stated, fails: the base file is loaded outside the \<open>try\<close> of the loop, so a
  folder whose only numbered file \<open>message_1.json\<close> does not parse makes the merge raise
  instead of returning a record.
\<close>

theorem merge_unparsable_base_counterexample:
  "numbered_message_file ''message_1.json''
   \<and> merge_conversation_messages example_lib_sort [(''message_1.json'', None)]
       = Inl JSONDecodeError"
  by code_simp

text \<open>
  C2, amended. Take a folder in which each file matching \<open>message_*.json\<close> has an integer
  after the first underscore, whose base file (\<open>message_1.json\<close> if present, else the
  lowest-numbered file) parses to an object, and in which every matching file that
  parses to an object has \<open>messages\<close> absent or an array of objects with \<open>timestamp_ms\<close>
  absent or an integer. With no matching file the merge returns \<open>None\<close>. Otherwise it
  returns the base object with, at \<open>messages\<close>, the message arrays of the matching files
  (none for a file that does not parse to an object), concatenated in descending order
  of the file number and stably sorted by \<open>timestamp_ms\<close> (0 when absent): the list is
  ascending and a permutation of the concatenation.
\<close>

theorem merge_conversation_messages_sorted:
  assumes "\<forall>f\<in>set (glob_messages folder). file_number (fst f) \<noteq> None"
    and "glob_messages folder \<noteq> [] \<longrightarrow>
           first_file folder (sort_desc (\<lambda>f. the (file_number (fst f))) (glob_messages folder))
             = Some (JObj base)"
    and "\<forall>f\<in>set (glob_messages folder). plain_file (snd f)"
  shows "(glob_messages folder = [] \<longrightarrow> merge_conversation_messages lib_sort folder = Inr None)
       \<and> (glob_messages folder \<noteq> [] \<longrightarrow>
            (\<exists>r ms. merge_conversation_messages lib_sort folder = Inr (Some r)
               \<and> r = JObj (dict_set ''messages'' (JArr ms) base)
               \<and> py_getitem r ''messages'' = Inr (JArr ms)
               \<and> ms = sort_key timestamp_ms
                        (concat (map (\<lambda>f. message_array (snd f))
                           (sort_desc (\<lambda>f. the (file_number (fst f))) (glob_messages folder))))
               \<and> sorted (map timestamp_ms ms)
               \<and> mset ms = mset (concat (map (\<lambda>f. message_array (snd f))
                                              (glob_messages folder)))))"
proof (intro conjI impI)
  assume "glob_messages folder = []"
  then show "merge_conversation_messages lib_sort folder = Inr None"
    by (simp add: merge_conversation_messages_def message_files_def sort_desc_def)
next
  assume ne: "glob_messages folder \<noteq> []"
  let ?files = "sort_desc (\<lambda>f. the (file_number (fst f))) (glob_messages folder)"
  let ?all = "concat (map (\<lambda>f. message_array (snd f)) ?files)"
  let ?ms = "sort_key timestamp_ms ?all"
  have mf: "message_files folder = Inr ?files" using assms(1) by (rule message_files_Inr)
  have fne: "?files \<noteq> []" using ne by (simp add: sort_desc_Nil_iff)
  have ff: "first_file folder ?files = Some (JObj base)" using assms(2) ne by simp
  have pf: "\<forall>f\<in>set ?files. plain_file (snd f)" using assms(3) by (simp add: set_sort_desc)
  have eq: "map (\<lambda>f. file_messages (snd f)) ?files = map (\<lambda>f. message_array (snd f)) ?files"
    using pf plain_file_messages by simp
  have "\<forall>f\<in>set ?files. list_all plain_message (message_array (snd f))"
    using pf plain_file_messages by blast
  then have pl: "list_all plain_message ?all" by (simp add: list_all_iff)
  have sm: "sort_messages lib_sort (concat (map (\<lambda>f. file_messages (snd f)) ?files)) = Inr ?ms"
    by (simp only: eq sort_messages_plain[OF pl])
  have m: "merge_conversation_messages lib_sort folder
             = Inr (Some (JObj (dict_set ''messages'' (JArr ?ms) base)))"
    by (simp add: merge_conversation_messages_def mf fne ff sm)
  have g: "py_getitem (JObj (dict_set ''messages'' (JArr ?ms) base)) ''messages'' = Inr (JArr ?ms)"
    by (simp add: py_getitem_dict_set)
  have p: "mset ?ms = mset (concat (map (\<lambda>f. message_array (snd f)) (glob_messages folder)))"
    by (simp add: mset_concat_map mset_sort_desc)
  have s: "sorted (map timestamp_ms ?ms)" by simp
  show "\<exists>r ms. merge_conversation_messages lib_sort folder = Inr (Some r)
               \<and> r = JObj (dict_set ''messages'' (JArr ms) base)
               \<and> py_getitem r ''messages'' = Inr (JArr ms)
               \<and> ms = ?ms
               \<and> sorted (map timestamp_ms ms)
               \<and> mset ms = mset (concat (map (\<lambda>f. message_array (snd f))
                                              (glob_messages folder)))"
    by (rule exI[of _ "JObj (dict_set ''messages'' (JArr ?ms) base)"], rule exI[of _ ?ms],
        intro conjI) (rule m refl g s p)+
qed

text \<open>
  Witness for C2, the spec's example: files with timestamps 300, 400 and 100, 200 give
  four messages in the order 100, 200, 300, 400.
\<close>

theorem merge_conversation_messages_sorted_witness:
  "\<exists>r. merge_conversation_messages example_lib_sort example_folder = Inr (Some r)
      \<and> py_getitem r ''messages'' = Inr (JArr [example_message 100, example_message 200,
                                               example_message 300, example_message 400])"
  using merge_conversation_messages_sorted[of example_folder
          "[(''participants'', JArr [JObj [(''name'', JStr ''alice'')],
                                     JObj [(''name'', JStr ''bob'')]]),
            (''messages'', JArr [example_message 300, example_message 400])]" example_lib_sort]
        example_numbers example_base example_nonempty example_sorted example_plain
  by (auto simp: example_export_def)

text \<open>
  C10. For every folder on which the merge returns a record, the record is the base
  document with a new value at \<open>messages\<close>: every other field, in particular the
  participants, is that of the base file, which is \<open>message_1.json\<close> if the folder has
  it, and otherwise a file matching \<open>message_*.json\<close> whose number is the lowest.
\<close>

theorem merge_keeps_base_fields:
  assumes "merge_conversation_messages lib_sort folder = Inr (Some r)"
  shows "\<exists>files base.
           message_files folder = Inr files
         \<and> first_file folder files = Some base
         \<and> (\<exists>kvs ms. base = JObj kvs \<and> r = JObj (dict_set ''messages'' (JArr ms) kvs))
         \<and> (\<forall>k. k \<noteq> ''messages'' \<longrightarrow> py_getitem r k = py_getitem base k)
         \<and> py_getitem r ''participants'' = py_getitem base ''participants''
         \<and> (\<forall>c. map_of folder ''message_1.json'' = Some c \<longrightarrow> c = Some base)
         \<and> (map_of folder ''message_1.json'' = None \<longrightarrow>
              (\<exists>f\<in>set (glob_messages folder). snd f = Some base
                 \<and> (\<forall>g\<in>set (glob_messages folder).
                       the (file_number (fst f)) \<le> the (file_number (fst g)))))"
proof -
  from assms obtain files where mf: "message_files folder = Inr files"
    by (cases "message_files folder") (auto simp: merge_conversation_messages_def)
  from assms mf have fne: "files \<noteq> []"
    by (auto simp: merge_conversation_messages_def split: if_splits)
  from assms mf fne obtain base where ff: "first_file folder files = Some base"
    by (cases "first_file folder files") (auto simp: merge_conversation_messages_def)
  from assms mf fne ff obtain ms where
    sm: "sort_messages lib_sort (concat (map (\<lambda>f. file_messages (snd f)) files)) = Inr ms"
    by (cases "sort_messages lib_sort (concat (map (\<lambda>f. file_messages (snd f)) files))")
       (auto simp: merge_conversation_messages_def)
  from assms mf fne ff sm obtain kvs where b: "base = JObj kvs"
    by (cases base) (auto simp: merge_conversation_messages_def)
  have r: "r = JObj (dict_set ''messages'' (JArr ms) kvs)"
    using assms mf fne ff sm b by (simp add: merge_conversation_messages_def)
  have files: "files = sort_desc (\<lambda>f. the (file_number (fst f))) (glob_messages folder)"
    using mf by (auto simp: message_files_def split: if_splits)
  have gne: "glob_messages folder \<noteq> []" using fne files by (simp add: sort_desc_Nil_iff)
  have a: "\<forall>c. map_of folder ''message_1.json'' = Some c \<longrightarrow> c = Some base"
    using ff by (auto simp: first_file_def)
  have c: "map_of folder ''message_1.json'' = None \<longrightarrow>
              (\<exists>f\<in>set (glob_messages folder). snd f = Some base
                 \<and> (\<forall>g\<in>set (glob_messages folder).
                       the (file_number (fst f)) \<le> the (file_number (fst g))))"
  proof
    assume n: "map_of folder ''message_1.json'' = None"
    then have "snd (last files) = Some base" using ff by (simp add: first_file_def)
    then have s: "snd (last (sort_desc (\<lambda>f. the (file_number (fst f))) (glob_messages folder)))
                    = Some base"
      by (simp only: files)
    have m: "last (sort_desc (\<lambda>f. the (file_number (fst f))) (glob_messages folder))
               \<in> set (glob_messages folder)"
      and le: "\<forall>g\<in>set (glob_messages folder).
                 the (file_number (fst (last (sort_desc (\<lambda>f. the (file_number (fst f)))
                                               (glob_messages folder)))))
                   \<le> the (file_number (fst g))"
      using last_sort_desc[OF gne, of "\<lambda>f. the (file_number (fst f))"] by simp_all
    show "\<exists>f\<in>set (glob_messages folder). snd f = Some base
                 \<and> (\<forall>g\<in>set (glob_messages folder).
                       the (file_number (fst f)) \<le> the (file_number (fst g)))"
      by (rule bexI[OF _ m]) (rule conjI[OF s le])
  qed
  have e: "\<exists>kvs ms. base = JObj kvs \<and> r = JObj (dict_set ''messages'' (JArr ms) kvs)"
    using b r by blast
  have f: "\<forall>k. k \<noteq> ''messages'' \<longrightarrow> py_getitem r k = py_getitem base k"
    by (simp add: r b py_getitem_dict_set)
  have p: "py_getitem r ''participants'' = py_getitem base ''participants''"
    by (simp add: r b py_getitem_dict_set)
  show ?thesis
    by (rule exI[of _ files], rule exI[of _ base], intro conjI) (rule mf ff e f p a c)+
qed

text \<open>Witness for C10: the participants of the example folder's \<open>message_1.json\<close>.\<close>

theorem merge_keeps_base_fields_witness:
  "\<exists>r. merge_conversation_messages example_lib_sort example_folder = Inr (Some r)
      \<and> py_getitem r ''participants''
          = Inr (JArr [JObj [(''name'', JStr ''alice'')], JObj [(''name'', JStr ''bob'')]])"
proof -
  obtain r where r: "merge_conversation_messages example_lib_sort example_folder = Inr (Some r)"
    using example_merge by blast
  have m1: "map_of example_folder ''message_1.json''
              = Some (Some (example_export [example_message 300, example_message 400]))"
    by code_simp
  from merge_keeps_base_fields[OF r] m1
  have "py_getitem r ''participants''
          = py_getitem (example_export [example_message 300, example_message 400]) ''participants''"
    by auto
  then show ?thesis using r by (auto simp: example_export_def py_getitem_def)
qed

lemma participant_names_objs:
  assumes "list_all is_obj ps"
  shows "\<exists>names. participant_names repair ps = Some names
           \<and> list_all2 (\<lambda>p n. named_participant p \<longrightarrow> is_str n) ps names"
  using assms
proof (induction ps)
  case Nil
  show ?case by simp
next
  case (Cons p ps)
  then obtain names where n: "participant_names repair ps = Some names"
    and l: "list_all2 (\<lambda>p n. named_participant p \<longrightarrow> is_str n) ps names" by auto
  from Cons.prems obtain kvs where p: "p = JObj kvs" by (cases p) (auto simp: is_obj_def)
  let ?name = "case map_of kvs ''name'' of Some v \<Rightarrow> v | None \<Rightarrow> JStr ''Unknown''"
  have g: "py_get p ''name'' (JStr ''Unknown'') = Inr ?name" by (simp add: p py_get_def)
  have s: "named_participant p \<longrightarrow> is_str (fix_name repair ?name)"
  proof (cases "map_of kvs ''name''")
    case None
    then show ?thesis by (simp add: fix_name_def is_str_def split: option.splits)
  next
    case (Some v)
    then show ?thesis using p
      by (cases v) (simp_all add: named_participant_def fix_name_def is_str_def split: option.splits)
  qed
  show ?case using n l g s by simp
qed

lemma previewable_preview:
  assumes "previewable folder"
  shows "\<exists>pv. get_conversation_preview repair folder = Some pv"
proof -
  from assms obtain kvs where m: "map_of folder ''message_1.json'' = Some (Some (JObj kvs))"
    by (auto simp: previewable_def split: option.splits json.splits)
  have "\<exists>names. preview_names repair (JObj kvs) = Some names \<and> list_all is_str (take 2 names)"
  proof (cases "map_of kvs ''participants''")
    case None
    then have "''participants'' \<notin> fst ` set kvs" by (simp add: map_of_eq_None_iff)
    then show ?thesis by (simp add: preview_names_def py_contains_def)
  next
    case (Some v)
    then have k: "''participants'' \<in> fst ` set kvs"
      by (metis map_of_eq_None_iff option.distinct(1))
    from assms m Some obtain ps where v: "v = JArr ps" and o: "list_all is_obj ps"
      and np: "list_all named_participant (take 2 ps)"
      by (cases v) (auto simp: previewable_def)
    from participant_names_objs[OF o, of repair] obtain names where
      n: "participant_names repair ps = Some names"
      and l: "list_all2 (\<lambda>p n. named_participant p \<longrightarrow> is_str n) ps names" by blast
    have "list_all2 (\<lambda>p n. named_participant p \<longrightarrow> is_str n) (take 2 ps) (take 2 names)"
      using l by (rule list_all2_takeI)
    then have "list_all is_str (take 2 names)"
      using np unfolding list_all2_conv_all_nth list_all_length by auto
    then show ?thesis using k Some v n
      by (simp add: preview_names_def py_contains_def py_getitem_def py_iter_def)
  qed
  then obtain names where n: "preview_names repair (JObj kvs) = Some names"
    and s: "list_all is_str (take 2 names)" by blast
  show ?thesis using m n s by (simp add: get_conversation_preview_def join_names_def Let_def)
qed

lemma conversation_of_folder:
  assumes "previewable folder"
  shows "\<exists>u. conversation_of repair (fname, Folder folder) = [u] \<and> folder_name u = fname"
proof -
  from assms obtain c where m: "map_of folder ''message_1.json'' = Some c"
    by (auto simp: previewable_def split: option.splits)
  have g: "glob_messages folder \<noteq> []" using map_of_glob[OF m] by auto
  obtain pv where pv: "get_conversation_preview repair folder = Some pv"
    using previewable_preview[OF assms] by blast
  show ?thesis by (simp add: conversation_of_def g pv)
qed

text \<open>
  C8, as stated, fails: the preview returns \<open>None\<close> when the folder has no
  \<open>message_1.json\<close>, so a folder whose only numbered file is \<open>message_2.json\<close> is not
  listed.
\<close>

theorem find_conversations_counterexample:
  "numbered_message_file ''message_2.json''
   \<and> find_inbox_path
        (example_root [(''message_2.json'', Some (example_export [example_message 100]))])
       = Some [(''alice_1'',
                Folder [(''message_2.json'', Some (example_export [example_message 100]))])]
   \<and> find_conversations (\<lambda>n. None)
        (example_root [(''message_2.json'', Some (example_export [example_message 100]))]) = []"
  by code_simp

text \<open>
  C8, amended. For every extracted vendor-A archive, every immediate subdirectory of the
  inbox folder appears as a conversation candidate in the enumeration result if it
  contains a \<open>message_1.json\<close> that parses to an object whose \<open>participants\<close> is absent or
  an array of objects, the first two of them with a name that is absent or a string.
\<close>

theorem find_conversations_lists_folder:
  assumes "find_inbox_path root = Some inbox"
    and "(fname, Folder folder) \<in> set inbox"
    and "previewable folder"
  shows "fname \<in> folder_name ` set (find_conversations repair root)"
proof -
  obtain u where u: "conversation_of repair (fname, Folder folder) = [u]"
    and n: "folder_name u = fname"
    using conversation_of_folder[OF assms(3)] by blast
  have "u \<in> set (conversation_of repair (fname, Folder folder))" by (simp add: u)
  then have "u \<in> set (concat (map (conversation_of repair) inbox))"
    using assms(2) by (simp only: set_concat set_map) blast
  then have "u \<in> set (find_conversations repair root)"
    by (simp add: find_conversations_def assms(1) set_sort_desc)
  then show ?thesis using n by blast
qed

text \<open>Witness for C8: the example folder in an inbox.\<close>

theorem find_conversations_lists_folder_witness:
  "''alice_1'' \<in> folder_name ` set (find_conversations (\<lambda>n. None) (example_root example_folder))"
proof -
  have i: "find_inbox_path (example_root example_folder)
             = Some [(''alice_1'', Folder example_folder)]"
    by (simp add: find_inbox_path_def example_root_def)
  have m: "(''alice_1'', Folder example_folder) \<in> set [(''alice_1'', Folder example_folder)]"
    by simp
  have f: "previewable example_folder"
    by code_simp
  show ?thesis by (rule find_conversations_lists_folder[OF i m f])
qed

lemma sort_messages_Inr:
  assumes "\<And>xs ys. lib_sort xs = Inr ys \<Longrightarrow> mset ys = mset xs"
    and "sort_messages lib_sort xs = Inr ys"
  shows "list_all is_obj xs \<and> mset ys = mset xs"
proof -
  have o: "\<not> list_ex (\<lambda>x. \<not> is_obj x) xs" using assms(2)
    by (auto simp: sort_messages_def split: if_splits)
  then have "list_all is_obj xs" by (simp add: list_all_iff list_ex_iff)
  moreover have "mset ys = mset xs"
    using assms(2) o assms(1)[of xs ys] by (auto simp: sort_messages_def split: if_splits)
  ultimately show ?thesis by simp
qed

lemma no_pairs: "(\<forall>a b. (a, b) \<notin> set xs) \<longleftrightarrow> xs = []"
  by (cases xs) auto

lemma file_messages_objs:
  assumes "list_all is_obj (file_messages parsed)"
  shows "file_messages parsed = message_array parsed"
proof (cases parsed)
  case None
  then show ?thesis by (simp add: file_messages_def message_array_def)
next
  case (Some data)
  show ?thesis
  proof (cases data)
    case (JObj kvs)
    show ?thesis
    proof (cases "map_of kvs ''messages''")
      case None
      then show ?thesis using Some JObj
        by (simp add: file_messages_def message_array_def py_get_def py_iter_def)
    next
      case (Some v)
      then show ?thesis using \<open>parsed = Some data\<close> JObj assms
        by (cases v)
           (auto simp: file_messages_def message_array_def py_get_def py_iter_def
              is_obj_def list_all_iff no_pairs)
    qed
  qed (use Some in \<open>simp_all add: file_messages_def message_array_def py_get_def\<close>)
qed

lemma merge_keeps_occurrences:
  assumes "\<And>xs ys. lib_sort xs = Inr ys \<Longrightarrow> mset ys = mset xs"
    and "merge_conversation_messages lib_sort folder = Inr (Some r)"
  shows "\<exists>ms. py_getitem r ''messages'' = Inr (JArr ms)
           \<and> mset ms = mset (concat (map (\<lambda>f. message_array (snd f)) (glob_messages folder)))"
proof -
  from assms(2) obtain files where mf: "message_files folder = Inr files"
    by (cases "message_files folder") (auto simp: merge_conversation_messages_def)
  from assms(2) mf have fne: "files \<noteq> []"
    by (auto simp: merge_conversation_messages_def split: if_splits)
  from assms(2) mf fne obtain base where ff: "first_file folder files = Some base"
    by (cases "first_file folder files") (auto simp: merge_conversation_messages_def)
  from assms(2) mf fne ff obtain ms where
    sm: "sort_messages lib_sort (concat (map (\<lambda>f. file_messages (snd f)) files)) = Inr ms"
    by (cases "sort_messages lib_sort (concat (map (\<lambda>f. file_messages (snd f)) files))")
       (auto simp: merge_conversation_messages_def)
  from assms(2) mf fne ff sm obtain kvs where b: "base = JObj kvs"
    by (cases base) (auto simp: merge_conversation_messages_def)
  have r: "r = JObj (dict_set ''messages'' (JArr ms) kvs)"
    using assms(2) mf fne ff sm b by (simp add: merge_conversation_messages_def)
  from sort_messages_Inr[OF assms(1) sm]
  have o: "list_all is_obj (concat (map (\<lambda>f. file_messages (snd f)) files))"
    and p: "mset ms = mset (concat (map (\<lambda>f. file_messages (snd f)) files))" by simp_all
  have "\<forall>f\<in>set files. list_all is_obj (file_messages (snd f))"
    using o by (auto simp: list_all_iff)
  then have eq: "map (\<lambda>f. file_messages (snd f)) files = map (\<lambda>f. message_array (snd f)) files"
    using file_messages_objs by simp
  have "mset ms = mset (concat (map (\<lambda>f. message_array (snd f)) files))"
    using p by (simp only: eq)
  also have "\<dots> = mset (concat (map (\<lambda>f. message_array (snd f)) (glob_messages folder)))"
    by (rule mset_concat_map_cong) (rule message_files_set[OF mf])
  finally have q: "mset ms = mset (concat (map (\<lambda>f. message_array (snd f)) (glob_messages folder)))" .
  have g: "py_getitem r ''messages'' = Inr (JArr ms)" by (simp add: r py_getitem_dict_set)
  show ?thesis using g q by blast
qed

section \<open>Theorems: vendor-B enumeration and conversion\<close>









lemma convert_message_Some:
  assumes "convert_message strptime_ms repr d = Some es"
  shows "is_obj d
       \<and> map (\<lambda>m. py_getitem m ''content'') es = map Inr (filter truthy [contents_of d])
       \<and> (\<forall>m\<in>set es. \<exists>s c t. m = JObj [(''sender_name'', s), (''content'', c),
                                            (''timestamp_ms'', JInt t)])"
proof -
  from assms obtain kvs where d: "d = JObj kvs"
    by (cases d) (simp_all add: convert_message_def)
  have c: "dict_get kvs ''Contents'' (JStr []) = contents_of d"
    by (simp add: d contents_of_def dict_get_def)
  show ?thesis
  proof (cases "truthy (contents_of d)")
    case True
    then have "es = [JObj [(''sender_name'', sender_of repr kvs), (''content'', contents_of d),
                           (''timestamp_ms'',
                              JInt (timestamp_of strptime_ms
                                      (dict_get kvs ''Timestamp'' (JStr []))))]]"
      using assms by (simp add: convert_message_def d c Let_def)
    then show ?thesis using True by (simp add: d is_obj_def py_getitem_def)
  next
    case False
    then have "es = []" using assms by (simp add: convert_message_def d c Let_def)
    then show ?thesis using False by (simp add: d is_obj_def)
  qed
qed

lemma convert_messages_Some:
  assumes "convert_messages strptime_ms repr ds = Some entries"
  shows "list_all is_obj ds
       \<and> map (\<lambda>m. py_getitem m ''content'') entries
           = map Inr (filter truthy (map contents_of ds))
       \<and> (\<forall>m\<in>set entries. \<exists>s c t. m = JObj [(''sender_name'', s), (''content'', c),
                                                 (''timestamp_ms'', JInt t)])"
  using assms
proof (induction ds arbitrary: entries)
  case Nil
  then show ?case by simp
next
  case (Cons d ds)
  from Cons.prems obtain es where e: "convert_message strptime_ms repr d = Some es"
    by (cases "convert_message strptime_ms repr d") simp_all
  from Cons.prems e obtain others where o: "convert_messages strptime_ms repr ds = Some others"
    by (cases "convert_messages strptime_ms repr ds") simp_all
  have en: "entries = es @ others" using Cons.prems e o by simp
  note a = convert_message_Some[OF e]
  note b = Cons.IH[OF o]
  have 1: "list_all is_obj (d # ds)" using a b by simp
  have 2: "map (\<lambda>m. py_getitem m ''content'') entries
             = map Inr (filter truthy (map contents_of (d # ds)))"
    using a b by (simp add: en)
  have 3: "\<forall>m\<in>set entries. \<exists>s c t. m = JObj [(''sender_name'', s), (''content'', c),
                                                 (''timestamp_ms'', JInt t)]"
    using a b by (auto simp: en)
  show ?case using 1 2 3 by blast
qed

lemma py_iter_objs:
  assumes "py_iter src = Inr ds" and "list_all is_obj ds"
  shows "ds = array_elems src"
  using assms
  by (cases src) (auto simp: py_iter_def array_elems_def is_obj_def list_all_iff no_pairs)

lemma convert_Some:
  assumes "convert_discord_to_instagram_format strptime_ms repr index_path channel = Some r"
  shows "\<exists>src entries ps.
           messages_json channel = Parsed src
         \<and> convert_messages strptime_ms repr (array_elems src) = Some entries
         \<and> r = JObj ([(''participants'', JArr ps),
                      (''messages'', JArr (rev (sort_key entry_timestamp entries))),
                      (''has_sender_info'', JBool (list_ex real_sender entries))]
                     @ (if \<not> list_ex real_sender entries
                        then [(''warning'', JStr sender_warning)] else []))"
proof -
  from assms obtain src where p: "messages_json channel = Parsed src"
    by (cases "messages_json channel") (simp_all add: convert_discord_to_instagram_format_def)
  from assms p obtain resolved where
    rp: "resolve_participants repr (load_index_json index_path) channel = Some resolved"
    by (cases "resolve_participants repr (load_index_json index_path) channel")
       (simp_all add: convert_discord_to_instagram_format_def)
  from assms p rp obtain ds where it: "py_iter src = Inr ds"
    by (cases "py_iter src") (simp_all add: convert_discord_to_instagram_format_def)
  from assms p rp it obtain entries where
    cm: "convert_messages strptime_ms repr ds = Some entries"
    by (cases "convert_messages strptime_ms repr ds")
       (simp_all add: convert_discord_to_instagram_format_def)
  have ds: "ds = array_elems src"
    using py_iter_objs[OF it] convert_messages_Some[OF cm] by simp
  let ?ps = "if resolved = [] then [JObj [(''name'', JStr ''Discord_User'')]] else resolved"
  have r: "r = JObj ([(''participants'', JArr ?ps),
                      (''messages'', JArr (rev (sort_key entry_timestamp entries))),
                      (''has_sender_info'', JBool (list_ex real_sender entries))]
                     @ (if \<not> list_ex real_sender entries
                        then [(''warning'', JStr sender_warning)] else []))"
    using assms p rp it cm by (simp add: convert_discord_to_instagram_format_def Let_def)
  show ?thesis
    by (rule exI[of _ src], rule exI[of _ entries], rule exI[of _ ?ps], intro conjI)
       (use p cm ds r in simp_all)
qed

lemma real_sender_entry:
  "real_sender (JObj [(''sender_name'', s), (''content'', c), (''timestamp_ms'', JInt t)])
     = (s \<notin> {JStr ''Unknown'', JStr ''Discord_User'', JNull})"
  by (simp add: real_sender_def py_get_def)

lemma example_convert:
  "convert_discord_to_instagram_format example_strptime_ms example_repr
     (index_json example_messages_dir) example_channel =
   Some example_converted"
  by code_simp

text \<open>
  C9, as stated, fails: the list of placeholders in the code also holds \<open>None\<close>. A message
  whose author has the user name \<open>null\<close> is converted with the sender name \<open>null\<close>, which
  is neither \<open>Unknown\<close> nor \<open>Discord_User\<close>, and the flag is false.
\<close>

theorem has_sender_info_null_counterexample:
  "convert_discord_to_instagram_format example_strptime_ms example_repr Missing
     example_null_channel
   = Some (JObj [(''participants'', JArr [JObj [(''name'', JStr ''Discord_User'')]]),
                 (''messages'', JArr [JObj [(''sender_name'', JNull), (''content'', JStr ''hi''),
                                            (''timestamp_ms'', JInt 1750065852000)]]),
                 (''has_sender_info'', JBool False),
                 (''warning'', JStr sender_warning)])
   \<and> JNull \<noteq> JStr ''Unknown'' \<and> JNull \<noteq> JStr ''Discord_User''"
  by code_simp

text \<open>
  C9, amended. For every vendor-B channel conversion that succeeds, \<open>has_sender_info\<close> of
  the returned record is true if and only if the sender name of some converted message
  is not a placeholder, the placeholders being \<open>Unknown\<close>, \<open>Discord_User\<close> and \<open>null\<close>; the
  warning is attached to the record exactly when \<open>has_sender_info\<close> is false. The
  converted messages are those of the channel with a non-empty content, one each.
\<close>

theorem has_sender_info_flag:
  assumes "convert_discord_to_instagram_format strptime_ms repr index_path channel = Some r"
  shows "\<exists>msgs flag.
           py_getitem r ''messages'' = Inr (JArr msgs)
         \<and> py_getitem r ''has_sender_info'' = Inr (JBool flag)
         \<and> (\<forall>m\<in>set msgs. \<exists>s. py_getitem m ''sender_name'' = Inr s)
         \<and> (flag \<longleftrightarrow> (\<exists>m\<in>set msgs. \<exists>s. py_getitem m ''sender_name'' = Inr s
                           \<and> s \<notin> {JStr ''Unknown'', JStr ''Discord_User'', JNull}))
         \<and> py_getitem r ''warning'' = (if flag then Inl KeyError else Inr (JStr sender_warning))
         \<and> (\<exists>src. messages_json channel = Parsed src
               \<and> mset (map (\<lambda>m. py_getitem m ''content'') msgs)
                   = mset (map Inr (filter truthy (map contents_of (array_elems src)))))"
proof -
  from convert_Some[OF assms] obtain src entries ps where
    p: "messages_json channel = Parsed src"
    and cm: "convert_messages strptime_ms repr (array_elems src) = Some entries"
    and r: "r = JObj ([(''participants'', JArr ps),
                      (''messages'', JArr (rev (sort_key entry_timestamp entries))),
                      (''has_sender_info'', JBool (list_ex real_sender entries))]
                     @ (if \<not> list_ex real_sender entries
                        then [(''warning'', JStr sender_warning)] else []))"
    by blast
  let ?msgs = "rev (sort_key entry_timestamp entries)"
  let ?flag = "list_ex real_sender entries"
  note c = convert_messages_Some[OF cm]
  have sh: "\<forall>m\<in>set entries. \<exists>s c t. m = JObj [(''sender_name'', s), (''content'', c),
                                                  (''timestamp_ms'', JInt t)]"
    using c by simp
  have s: "set ?msgs = set entries" by simp
  have 1: "py_getitem r ''messages'' = Inr (JArr ?msgs)" by (simp add: r py_getitem_def)
  have 2: "py_getitem r ''has_sender_info'' = Inr (JBool ?flag)" by (simp add: r py_getitem_def)
  have 3: "\<forall>m\<in>set ?msgs. \<exists>s. py_getitem m ''sender_name'' = Inr s"
  proof
    fix m assume "m \<in> set ?msgs"
    then have "m \<in> set entries" by simp
    then obtain s c t where "m = JObj [(''sender_name'', s), (''content'', c),
                                      (''timestamp_ms'', JInt t)]" using sh by blast
    then show "\<exists>s. py_getitem m ''sender_name'' = Inr s" by (simp add: py_getitem_def)
  qed
  have 4: "?flag \<longleftrightarrow> (\<exists>m\<in>set ?msgs. \<exists>s. py_getitem m ''sender_name'' = Inr s
                           \<and> s \<notin> {JStr ''Unknown'', JStr ''Discord_User'', JNull})"
  proof
    assume ?flag
    then obtain m where m: "m \<in> set entries" and rs: "real_sender m"
      by (auto simp: list_ex_iff)
    from m sh obtain s c t where e: "m = JObj [(''sender_name'', s), (''content'', c),
                                               (''timestamp_ms'', JInt t)]" by blast
    have "py_getitem m ''sender_name'' = Inr s" by (simp add: e py_getitem_def)
    moreover have "s \<notin> {JStr ''Unknown'', JStr ''Discord_User'', JNull}"
      using rs by (simp add: e real_sender_entry)
    ultimately show "\<exists>m\<in>set ?msgs. \<exists>s. py_getitem m ''sender_name'' = Inr s
                        \<and> s \<notin> {JStr ''Unknown'', JStr ''Discord_User'', JNull}"
      using m s by blast
  next
    assume "\<exists>m\<in>set ?msgs. \<exists>s. py_getitem m ''sender_name'' = Inr s
                        \<and> s \<notin> {JStr ''Unknown'', JStr ''Discord_User'', JNull}"
    then obtain m s where m: "m \<in> set entries"
      and g: "py_getitem m ''sender_name'' = Inr s"
      and n: "s \<notin> {JStr ''Unknown'', JStr ''Discord_User'', JNull}" by auto
    from m sh obtain s' c t where e: "m = JObj [(''sender_name'', s'), (''content'', c),
                                                (''timestamp_ms'', JInt t)]" by blast
    have "s' = s" using g by (simp add: e py_getitem_def)
    then have "real_sender m" using n by (simp add: e real_sender_entry)
    then show ?flag using m by (auto simp: list_ex_iff)
  qed
  have 5: "py_getitem r ''warning''
             = (if ?flag then Inl KeyError else Inr (JStr sender_warning))"
    by (simp add: r py_getitem_def)
  have "mset (map (\<lambda>m. py_getitem m ''content'') ?msgs)
          = mset (map (\<lambda>m. py_getitem m ''content'') entries)"
    by (simp only: mset_map mset_rev mset_sort)
  also have "\<dots> = mset (map Inr (filter truthy (map contents_of (array_elems src))))"
    using c by simp
  finally have 6: "\<exists>src. messages_json channel = Parsed src
               \<and> mset (map (\<lambda>m. py_getitem m ''content'') ?msgs)
                   = mset (map Inr (filter truthy (map contents_of (array_elems src))))"
    using p by blast
  show ?thesis
    by (rule exI[of _ ?msgs], rule exI[of _ ?flag], intro conjI) (rule 1 2 3 4 5 6)+
qed

text \<open>Witness for C9: the conversion of the example channel has the flag and no warning.\<close>

theorem has_sender_info_flag_witness:
  "py_getitem example_converted ''has_sender_info'' = Inr (JBool True)
   \<and> py_getitem example_converted ''warning'' = Inl KeyError"
proof -
  from has_sender_info_flag[OF example_convert] obtain msgs flag where
    h: "py_getitem example_converted ''has_sender_info'' = Inr (JBool flag)"
    and w: "py_getitem example_converted ''warning''
              = (if flag then Inl KeyError else Inr (JStr sender_warning))"
    by (elim exE conjE) (rule that)
  have "py_getitem example_converted ''has_sender_info'' = Inr (JBool True)"
    by (simp add: example_converted_def py_getitem_def)
  then have "flag" using h by simp
  then show ?thesis using h w by simp
qed

lemma example_convert_twice:
  "convert_discord_to_instagram_format example_strptime_ms example_repr Missing
     example_twice_channel
   = Some (JObj [(''participants'', JArr [JObj [(''name'', JStr ''Discord_User'')]]),
                 (''messages'', JArr
                    [JObj [(''sender_name'', JStr ''Discord_User''), (''content'', JStr ''hi''),
                           (''timestamp_ms'', JInt 1750065852000)],
                     JObj [(''sender_name'', JStr ''Discord_User''), (''content'', JStr ''hi''),
                           (''timestamp_ms'', JInt 1750065852000)]]),
                 (''has_sender_info'', JBool False),
                 (''warning'', JStr sender_warning)])"
  by code_simp

lemma example_merge_twice:
  "merge_conversation_messages example_lib_sort
      [(''message_1.json'', Some (example_export [example_message 100])),
       (''message_2.json'', Some (example_export [example_message 100]))]
   = Inr (Some (example_export [example_message 100, example_message 100]))"
  by code_simp

text \<open>
  C4, as stated, fails: neither merger removes duplicates. A message that occurs in two
  numbered files of a vendor-A folder occurs twice in the merged record, and a message
  that occurs twice in a vendor-B channel is converted twice.
\<close>

theorem merged_messages_not_deduplicated_counterexample:
  "merge_conversation_messages example_lib_sort
      [(''message_1.json'', Some (example_export [example_message 100])),
       (''message_2.json'', Some (example_export [example_message 100]))]
   = Inr (Some (JObj [(''participants'', JArr [JObj [(''name'', JStr ''alice'')],
                                                JObj [(''name'', JStr ''bob'')]]),
                      (''messages'', JArr [example_message 100, example_message 100])]))
   \<and> \<not> distinct [example_message 100, example_message 100]
   \<and> convert_discord_to_instagram_format example_strptime_ms example_repr Missing
        example_twice_channel
      = Some (JObj [(''participants'', JArr [JObj [(''name'', JStr ''Discord_User'')]]),
                    (''messages'', JArr
                       [JObj [(''sender_name'', JStr ''Discord_User''), (''content'', JStr ''hi''),
                              (''timestamp_ms'', JInt 1750065852000)],
                        JObj [(''sender_name'', JStr ''Discord_User''), (''content'', JStr ''hi''),
                              (''timestamp_ms'', JInt 1750065852000)]]),
                    (''has_sender_info'', JBool False),
                    (''warning'', JStr sender_warning)])"
  by code_simp

text \<open>
  C4, amended. The mergers keep every occurrence of a message. When the vendor-A merge
  returns a record, its messages are, as a multiset, the elements of the message arrays
  of all files matching \<open>message_*.json\<close> (a sort that returns has permuted its list).
  When the vendor-B conversion returns a record, the contents of its messages are, as
  a multiset, the non-empty contents of the messages of the channel: every message with
  a non-empty content is converted to one entry, and nothing else is.
\<close>

theorem merged_messages_keep_every_occurrence:
  assumes "\<And>xs ys. lib_sort xs = Inr ys \<Longrightarrow> mset ys = mset xs"
  shows "(merge_conversation_messages lib_sort folder = Inr (Some r) \<longrightarrow>
            (\<exists>ms. py_getitem r ''messages'' = Inr (JArr ms)
               \<and> mset ms = mset (concat (map (\<lambda>f. message_array (snd f))
                                              (glob_messages folder)))))
       \<and> (convert_discord_to_instagram_format strptime_ms repr index_path channel = Some c \<longrightarrow>
            (\<exists>ms src. py_getitem c ''messages'' = Inr (JArr ms)
               \<and> messages_json channel = Parsed src
               \<and> mset (map (\<lambda>m. py_getitem m ''content'') ms)
                   = mset (map Inr (filter truthy (map contents_of (array_elems src))))
               \<and> length ms = length (filter truthy (map contents_of (array_elems src)))))"
proof (intro conjI impI)
  assume "merge_conversation_messages lib_sort folder = Inr (Some r)"
  then show "\<exists>ms. py_getitem r ''messages'' = Inr (JArr ms)
               \<and> mset ms = mset (concat (map (\<lambda>f. message_array (snd f))
                                              (glob_messages folder)))"
    using assms by (rule merge_keeps_occurrences[rotated])
next
  assume a: "convert_discord_to_instagram_format strptime_ms repr index_path channel = Some c"
  from convert_Some[OF a] obtain src entries ps where
    p: "messages_json channel = Parsed src"
    and cm: "convert_messages strptime_ms repr (array_elems src) = Some entries"
    and r: "c = JObj ([(''participants'', JArr ps),
                      (''messages'', JArr (rev (sort_key entry_timestamp entries))),
                      (''has_sender_info'', JBool (list_ex real_sender entries))]
                     @ (if \<not> list_ex real_sender entries
                        then [(''warning'', JStr sender_warning)] else []))"
    by blast
  let ?ms = "rev (sort_key entry_timestamp entries)"
  note cs = convert_messages_Some[OF cm]
  have 1: "py_getitem c ''messages'' = Inr (JArr ?ms)" by (simp add: r py_getitem_def)
  have e: "map (\<lambda>m. py_getitem m ''content'') entries
             = map Inr (filter truthy (map contents_of (array_elems src)))"
    using cs by simp
  have "mset (map (\<lambda>m. py_getitem m ''content'') ?ms)
          = mset (map (\<lambda>m. py_getitem m ''content'') entries)"
    by (simp only: mset_map mset_rev mset_sort)
  then have 2: "mset (map (\<lambda>m. py_getitem m ''content'') ?ms)
                  = mset (map Inr (filter truthy (map contents_of (array_elems src))))"
    by (simp only: e)
  have "length entries = length (map Inr (filter truthy (map contents_of (array_elems src))))"
    using e by (metis length_map)
  then have 3: "length ?ms = length (filter truthy (map contents_of (array_elems src)))"
    by simp
  show "\<exists>ms src. py_getitem c ''messages'' = Inr (JArr ms)
               \<and> messages_json channel = Parsed src
               \<and> mset (map (\<lambda>m. py_getitem m ''content'') ms)
                   = mset (map Inr (filter truthy (map contents_of (array_elems src))))
               \<and> length ms = length (filter truthy (map contents_of (array_elems src)))"
    by (rule exI[of _ ?ms], rule exI[of _ src], intro conjI) (rule 1 p 2 3)+
qed

text \<open>
  Witness for C4: the folder and the channel that hold one message twice keep both
  occurrences.
\<close>

theorem merged_messages_keep_every_occurrence_witness:
  "(\<exists>ms. py_getitem (example_export [example_message 100, example_message 100]) ''messages''
            = Inr (JArr ms)
        \<and> mset ms = {#example_message 100, example_message 100#})
   \<and> (\<exists>ms. py_getitem
              (JObj [(''participants'', JArr [JObj [(''name'', JStr ''Discord_User'')]]),
                     (''messages'', JArr
                        [JObj [(''sender_name'', JStr ''Discord_User''), (''content'', JStr ''hi''),
                               (''timestamp_ms'', JInt 1750065852000)],
                         JObj [(''sender_name'', JStr ''Discord_User''), (''content'', JStr ''hi''),
                               (''timestamp_ms'', JInt 1750065852000)]]),
                     (''has_sender_info'', JBool False),
                     (''warning'', JStr sender_warning)]) ''messages'' = Inr (JArr ms)
        \<and> length ms = 2)"
proof -
  have l: "\<And>xs ys. example_lib_sort xs = Inr ys \<Longrightarrow> mset ys = mset xs"
    by (simp add: example_lib_sort_def)
  have g: "mset (concat (map (\<lambda>f. message_array (snd f))
             (glob_messages [(''message_1.json'', Some (example_export [example_message 100])),
                             (''message_2.json'', Some (example_export [example_message 100]))])))
           = {#example_message 100, example_message 100#}"
    by (simp add: glob_messages_def glob_message_def startswith_def endswith_def
        message_array_def example_export_def)
  have s: "messages_json example_twice_channel
             = Parsed (JArr [example_discord_message ''hi'' [], example_discord_message ''hi'' []])"
    by (simp add: example_twice_channel_def)
  have f: "length (filter truthy (map contents_of
             (array_elems (JArr [example_discord_message ''hi'' [],
                                 example_discord_message ''hi'' []])))) = 2"
    by (simp add: array_elems_def contents_of_def example_discord_message_def truthy_def)
  from merged_messages_keep_every_occurrence[of example_lib_sort
            "[(''message_1.json'', Some (example_export [example_message 100])),
              (''message_2.json'', Some (example_export [example_message 100]))]"
            "example_export [example_message 100, example_message 100]"
            example_strptime_ms example_repr Missing example_twice_channel, OF l]
       example_merge_twice example_convert_twice g s f
  show ?thesis by auto
qed

end
